theory Spec2Isabelle
  imports Complex_Main "HOL-Library.Log_Nat"
begin

section \<open>JavaScript values used by the service\<close>

text \<open>
  Strings are lists of code units (\<^typ>\<open>string\<close>); a field that may be \<open>undefined\<close> or
  \<open>null\<close> is an \<^typ>\<open>'a option\<close>. A string is truthy when it is present and not empty.
\<close>

definition truthy :: "string option \<Rightarrow> bool" where
  "truthy v = (case v of None \<Rightarrow> False | Some s \<Rightarrow> s \<noteq> [])"

text \<open>\<open>v || d\<close> on an optional string.\<close>

definition or_else :: "string option \<Rightarrow> string \<Rightarrow> string" where
  "or_else v d = (case v of None \<Rightarrow> d | Some s \<Rightarrow> if s = [] then d else s)"

text \<open>\<open>v || null\<close> on an optional string.\<close>

definition or_null :: "string option \<Rightarrow> string option" where
  "or_null v = (if truthy v then v else None)"

text \<open>
  \<open>t.split(c)\<close> read by destructuring: \<open>segment0\<close> is the first piece, \<open>segment1\<close> the
  second, \<open>undefined\<close> when \<open>t\<close> has no separator.
\<close>

definition segment0 :: "char \<Rightarrow> string \<Rightarrow> string" where
  "segment0 c t = takeWhile (\<lambda>x. x \<noteq> c) t"

definition segment1 :: "char \<Rightarrow> string \<Rightarrow> string option" where
  "segment1 c t =
     (case dropWhile (\<lambda>x. x \<noteq> c) t of
        [] \<Rightarrow> None
      | sep # rest \<Rightarrow> Some (takeWhile (\<lambda>x. x \<noteq> c) rest))"

definition startsWith :: "string \<Rightarrow> string \<Rightarrow> bool" where
  "startsWith t pre = (take (length pre) t = pre)"

text \<open>
  \<open>t.trim()\<close>. The white space and line terminators among the code units that
  \<^typ>\<open>char\<close> holds are tab, line feed, vertical tab, form feed, carriage return, space and
  no-break space.
\<close>

definition is_space :: "char \<Rightarrow> bool" where
  "is_space c = ((of_char c :: nat) \<in> set [9, 10, 11, 12, 13, 32, 160])"

definition trim :: "string \<Rightarrow> string" where
  "trim t = rev (dropWhile is_space (rev (dropWhile is_space t)))"

text \<open>Decimal digits: the class \<open>\d\<close>, the value of a digit string, and the digits of a number.\<close>

definition is_digit :: "char \<Rightarrow> bool" where
  "is_digit c = (c \<in> set ''0123456789'')"

definition digit_value :: "char \<Rightarrow> nat" where
  "digit_value c = of_char c - 48"

definition dec_value :: "string \<Rightarrow> nat" where
  "dec_value ds = foldl (\<lambda>a c. 10 * a + digit_value c) 0 ds"

definition digit_char :: "nat \<Rightarrow> char" where
  "digit_char d = ''0123456789'' ! d"

fun dec_string :: "nat \<Rightarrow> string" where
  "dec_string n = (if n < 10 then [digit_char n] else dec_string (n div 10) @ [digit_char (n mod 10)])"

section \<open>Numbers\<close>

text \<open>
  A JavaScript number is an IEEE 754 binary64 value. The finite non-negative ones are
  modelled as the rationals they denote, \<open>Infinity\<close> as \<open>None\<close>; every arithmetic operation
  is the exact operation followed by \<open>round_double\<close>, rounding to the nearest binary64
  value, ties to the even significand. \<open>ilog2 r\<close> is the binary exponent of \<open>r\<close>: the
  significand has 53 bits, the least exponent of a unit in the last place is \<open>-1074\<close>, and
  a result of \<open>2 ^ 1024\<close> or more overflows.
\<close>

definition ilog2 :: "rat \<Rightarrow> int" where
  "ilog2 r =
     (case quotient_of r of
        (n, d) \<Rightarrow> (let k = bitlen n - bitlen d in if 2 powi k \<le> r then k else k - 1))"

definition round_half_even :: "rat \<Rightarrow> int" where
  "round_half_even r =
     (let f = \<lfloor>r\<rfloor>; d = r - of_int f in
      if d < 1 / 2 then f else if 1 / 2 < d then f + 1 else if even f then f else f + 1)"

definition round_double :: "rat \<Rightarrow> rat option" where
  "round_double r =
     (if r = 0 then Some 0
      else let e = max (ilog2 r - 52) (- 1074);
               x = of_int (round_half_even (r / 2 powi e)) * 2 powi e
           in if x < 2 ^ 1024 then Some x else None)"

text \<open>\<open>Number(ds)\<close> for a string of decimal digits.\<close>

definition Number_digits :: "string \<Rightarrow> rat option" where
  "Number_digits ds = round_double (of_nat (dec_value ds))"

text \<open>\<open>a * b\<close> for a positive finite \<open>b\<close>, and \<open>a + b\<close>.\<close>

definition js_times :: "rat option \<Rightarrow> rat \<Rightarrow> rat option" where
  "js_times a b = (case a of None \<Rightarrow> None | Some x \<Rightarrow> round_double (x * b))"

definition js_plus :: "rat option \<Rightarrow> rat option \<Rightarrow> rat option" where
  "js_plus a b =
     (case a of None \<Rightarrow> None
      | Some x \<Rightarrow> (case b of None \<Rightarrow> None | Some y \<Rightarrow> round_double (x + y)))"

text \<open>
  \<open>x.toFixed(2)\<close> for \<open>0 \<le> x < 10 ^ 21\<close>: the digits of the integer \<open>n\<close> nearest to
  \<open>100 * x\<close>, the larger one on a tie, padded to three digits, with a point before the
  last two. Outside that range the result is \<open>None\<close>: there \<open>toFixed\<close> prints a sign or
  switches to exponent notation, which is not modelled.
\<close>

definition toFixed2 :: "rat \<Rightarrow> string option" where
  "toFixed2 x =
     (if x < 0 \<or> 10 ^ 21 \<le> x then None
      else
        let n = nat \<lfloor>x * 100 + 1 / 2\<rfloor>;
            m0 = dec_string n;
            m = replicate (3 - length m0) CHR ''0'' @ m0
        in Some (take (length m - 2) m @ ''.'' @ drop (length m - 2) m))"

section \<open>Constants\<close>

definition ALLOWED_GUILD_ID :: string where
  "ALLOWED_GUILD_ID = ''1269702895549419544''"

definition REFUND_APPROVER_USER_ID :: string where
  "REFUND_APPROVER_USER_ID = ''1400281740978815118''"

definition CURRENCY :: string where
  "CURRENCY = ''gbp''"

text \<open>\<open>24 * 60 * 60 * 1000\<close> milliseconds.\<close>

definition REFUND_WINDOW_MS :: int where
  "REFUND_WINDOW_MS = 24 * 60 * 60 * 1000"

definition PLAN_KEYS :: "string list" where
  "PLAN_KEYS = [''one_time'', ''monthly'', ''annual'', ''lifetime'']"

definition PLAN_LABELS :: "string \<rightharpoonup> string" where
  "PLAN_LABELS = [''one_time'' \<mapsto> ''One-time'', ''monthly'' \<mapsto> ''Monthly'',
                  ''annual'' \<mapsto> ''Annually'', ''lifetime'' \<mapsto> ''Lifetime'']"

section \<open>Money\<close>

text \<open>The test \<open>/^\d+(\.\d{1,2})?$/\<close>.\<close>

definition amount_pattern :: "string \<Rightarrow> bool" where
  "amount_pattern t =
     (takeWhile is_digit t \<noteq> [] \<and>
      (case dropWhile is_digit t of
         [] \<Rightarrow> True
       | c # fr \<Rightarrow> c = CHR ''.'' \<and> (length fr = 1 \<or> length fr = 2) \<and> list_all is_digit fr))"

text \<open>\<open>const [whole, fracRaw] = trimmed.split(".")\<close> and
  \<open>(fracRaw || "").padEnd(2, "0").slice(0, 2)\<close>.\<close>

definition amount_whole :: "string \<Rightarrow> string" where
  "amount_whole trimmed = segment0 CHR ''.'' trimmed"

definition amount_frac :: "string \<Rightarrow> string" where
  "amount_frac trimmed =
     (let fracRaw = (case segment1 CHR ''.'' trimmed of None \<Rightarrow> [] | Some f \<Rightarrow> f)
      in take 2 (fracRaw @ replicate (2 - length fracRaw) CHR ''0''))"

text \<open>
  \<open>amountToMinorUnits\<close>; \<open>None\<close> is \<open>null\<close>. The argument is a string, so the \<open>typeof\<close>
  test passes; \<open>Number.isFinite\<close> fails on \<open>Infinity\<close>.
\<close>

definition amountToMinorUnits :: "string \<Rightarrow> rat option" where
  "amountToMinorUnits amountStr =
     (let trimmed = trim amountStr in
      if \<not> amount_pattern trimmed then None
      else
        case js_plus (js_times (Number_digits (amount_whole trimmed)) 100)
                     (Number_digits (amount_frac trimmed)) of
          None \<Rightarrow> None
        | Some minor \<Rightarrow> if minor \<le> 0 then None else Some minor)"

text \<open>
  \<open>minorToDisplay\<close>: the prefix of the template literal before \<open>(minor / 100).toFixed(2)\<close>.
  In \<open>index.js\<close> the prefix is the two code units \<open>0xAC\<close> and \<open>0xA3\<close>; the revisions in
  \<open>part_000\<close> have the pound sign \<open>0xA3\<close> alone.
\<close>

definition minorToDisplay :: "rat \<Rightarrow> string option" where
  "minorToDisplay minor =
     (case round_double (minor / 100) of
        None \<Rightarrow> None
      | Some x \<Rightarrow> map_option (\<lambda>t. CHR 0xAC # CHR 0xA3 # t) (toFixed2 x))"

text \<open>
  What an amount string denotes, in minor units: a hundred times its whole part plus its
  two fractional digits. And the two-decimal rendering of a count of minor units.
\<close>

definition amount_value :: "string \<Rightarrow> nat" where
  "amount_value trimmed = 100 * dec_value (amount_whole trimmed) + dec_value (amount_frac trimmed)"

definition two_decimals :: "nat \<Rightarrow> string" where
  "two_decimals n =
     (let m0 = dec_string n; m = replicate (3 - length m0) CHR ''0'' @ m0
      in take (length m - 2) m @ ''.'' @ drop (length m - 2) m)"

section \<open>The document store\<close>

text \<open>
  A collection is the list of its documents. \<open>findOne\<close> returns the first document that
  matches the filter, \<open>updateOne\<close> changes the first match, \<open>updateMany\<close> every match.
  Reads and writes are taken to succeed; the one store error that is modelled is the
  violation of a unique index on insertion.
\<close>

definition findOne :: "('a \<Rightarrow> bool) \<Rightarrow> 'a list \<Rightarrow> 'a option" where
  "findOne flt col = find flt col"

fun updateOne :: "('a \<Rightarrow> bool) \<Rightarrow> ('a \<Rightarrow> 'a) \<Rightarrow> 'a list \<Rightarrow> 'a list" where
  "updateOne flt upd [] = []"
| "updateOne flt upd (d # ds) = (if flt d then upd d # ds else d # updateOne flt upd ds)"

definition updateMany :: "('a \<Rightarrow> bool) \<Rightarrow> ('a \<Rightarrow> 'a) \<Rightarrow> 'a list \<Rightarrow> 'a list" where
  "updateMany flt upd col = map (\<lambda>d. if flt d then upd d else d) col"

section \<open>Plans and prices\<close>

text \<open>
  A product's \<open>prices\<close> object maps a plan key to \<open>{ amountMinor }\<close>. The amount is a count
  of minor currency units; the service only ever stores what \<open>amountToMinorUnits\<close> returned.
  The object itself, an entry and the amount may each be missing.
\<close>

record price =
  amountMinor :: "nat option"

type_synonym prices = "string \<rightharpoonup> price"

text \<open>\<open>pricesObj?.[key]?.amountMinor\<close>, read for its truthiness.\<close>

definition plan_amount :: "prices option \<Rightarrow> string \<Rightarrow> nat option" where
  "plan_amount pricesObj key =
     (case pricesObj of None \<Rightarrow> None
      | Some ps \<Rightarrow> (case ps key of None \<Rightarrow> None | Some p \<Rightarrow> amountMinor p))"

definition truthy_amount :: "nat option \<Rightarrow> bool" where
  "truthy_amount a = (case a of None \<Rightarrow> False | Some n \<Rightarrow> n \<noteq> 0)"

text \<open>The loop \<open>for (const key of PLAN_KEYS) if (...) out.push(key)\<close>.\<close>

fun enabledPlans_loop :: "prices option \<Rightarrow> string list \<Rightarrow> string list \<Rightarrow> string list" where
  "enabledPlans_loop pricesObj [] out = out"
| "enabledPlans_loop pricesObj (key # keys) out =
     enabledPlans_loop pricesObj keys
       (if truthy_amount (plan_amount pricesObj key) then out @ [key] else out)"

definition enabledPlans :: "prices option \<Rightarrow> string list" where
  "enabledPlans pricesObj = enabledPlans_loop pricesObj PLAN_KEYS []"

section \<open>Entitlements and the checkout gate\<close>

text \<open>
  \<open>canStartCheckout\<close> reads one entitlement and decides. The messages are those of the
  source, the arrow in the second one written \<open>->\<close>.
\<close>

record entitlement =
  ent_guildId :: string
  ent_userId :: string
  ent_productId :: string
  ent_status :: string
  ent_planKey :: string
  ent_referenceCode :: "string option"
  ent_lastPurchaseId :: "string option"
  ent_stripeSubscriptionId :: "string option"
  ent_currentPeriodEnd :: "int option"
  ent_subscriptionStatus :: "string option"
  ent_createdAt :: "int option"
  ent_updatedAt :: "int option"
  ent_revokedAt :: "int option"
  ent_revokedBy :: "string option"

definition getEntitlement :: "entitlement list \<Rightarrow> string \<Rightarrow> string \<Rightarrow> string \<Rightarrow> entitlement option" where
  "getEntitlement entitlementsCol guildId userId productId =
     findOne (\<lambda>e. ent_guildId e = guildId \<and> ent_userId e = userId \<and> ent_productId e = productId)
       entitlementsCol"

record gate =
  ok :: bool
  reason :: "string option"

definition canStartCheckout ::
  "entitlement list \<Rightarrow> string \<Rightarrow> string \<Rightarrow> string \<Rightarrow> string \<Rightarrow> bool \<Rightarrow> gate" where
  "canStartCheckout entitlementsCol guildId userId productId planKey isUpgrade =
     (case getEntitlement entitlementsCol guildId userId productId of
        None \<Rightarrow> \<lparr>ok = True, reason = None\<rparr>
      | Some ent \<Rightarrow>
          if ent_status ent \<noteq> ''active'' then \<lparr>ok = True, reason = None\<rparr>
          else if ent_planKey ent = ''lifetime'' then
            \<lparr>ok = False, reason = Some ''You already own **Lifetime** for this product.''\<rparr>
          else if isUpgrade then
            (if ent_planKey ent \<noteq> ''one_time'' then
               \<lparr>ok = False, reason = Some ''Upgrade is only for **One-time -> Monthly/Annual**.''\<rparr>
             else if \<not> (planKey = ''monthly'' \<or> planKey = ''annual'') then
               \<lparr>ok = False, reason = Some ''Upgrade must be **Monthly** or **Annual**.''\<rparr>
             else if truthy (ent_stripeSubscriptionId ent) then
               \<lparr>ok = False, reason = Some ''A subscription is already on record for this product.''\<rparr>
             else \<lparr>ok = True, reason = None\<rparr>)
          else
            \<lparr>ok = False,
             reason = Some (''You already own this product (**''
               @ (case PLAN_LABELS (ent_planKey ent) of Some l \<Rightarrow> l | None \<Rightarrow> ent_planKey ent)
               @ ''**). If you bought one-time and want updates, use **/upgrade**.'')\<rparr>)"

section \<open>Stored documents\<close>

text \<open>
  Documents are records; a field that a document may lack is an option. Timestamps are
  milliseconds since the epoch. \<open>ptype\<close> is the field \<open>type\<close>, \<open>p_amountMinor\<close> the
  purchase's \<open>amountMinor\<close>.
\<close>

record purchase =
  purchaseId :: string
  guildId :: string
  userId :: string
  ptype :: string
  productId :: "string option"
  productName :: "string option"
  planKey :: "string option"
  roleId :: "string option"
  p_amountMinor :: nat
  currency :: string
  referenceCode :: "string option"
  stripeSessionId :: "string option"
  status :: string
  createdAt :: "int option"
  paidAt :: "int option"
  stripePaymentIntentId :: "string option"
  stripeSubscriptionId :: "string option"
  currentPeriodEnd :: "int option"
  subscriptionStatus :: "string option"
  cancelAtPeriodEnd :: "bool option"
  refundedAt :: "int option"
  stripeRefundId :: "string option"
  subscriptionUpdatedAt :: "int option"
  subscriptionEndedAt :: "int option"

record refund_request =
  rr_requestId :: string
  rr_purchaseId :: string
  rr_guildId :: string
  rr_requestedBy :: string
  rr_status :: string
  rr_createdAt :: "int option"
  rr_approvedAt :: "int option"
  rr_approvedBy :: "string option"
  rr_rejectedAt :: "int option"
  rr_rejectedBy :: "string option"
  rr_executedAt :: "int option"
  rr_failedAt :: "int option"
  rr_failureReason :: "string option"
  rr_reason :: "string option"
  rr_stripeRefundId :: "string option"

record config =
  cfg_guildId :: string
  cfg_purchaseLogChannelId :: "string option"
  cfg_thanksChannelId :: "string option"
  cfg_supportRoleId :: "string option"
  cfg_ticketPanelMessageId :: "string option"
  cfg_updatedAt :: "int option"

record ticket =
  t_guildId :: string
  t_channelId :: string
  t_userId :: string
  t_status :: string
  t_createdAt :: "int option"

record product =
  prod_id :: string
  prod_guildId :: string
  prod_name :: string
  prod_description :: string
  prod_roleId :: string
  prod_prices :: "prices option"
  prod_createdAt :: "int option"

text \<open>
  The state of the service: the six collections and, in the entitlement revision, the
  in-memory configuration cache (guild id to cached document and expiry time).
\<close>

record store =
  productsCol :: "product list"
  configCol :: "config list"
  purchasesCol :: "purchase list"
  refundRequestsCol :: "refund_request list"
  ticketsCol :: "ticket list"
  entitlementsCol :: "entitlement list"
  configCache :: "string \<rightharpoonup> config option \<times> int"

section \<open>Collaborators\<close>

text \<open>Stripe objects, as far as the handlers read them.\<close>

record session =
  sess_id :: string
  metadata :: "(string \<rightharpoonup> string) option"
  payment_intent :: "string option"
  subscription :: "string option"

record stripe_sub =
  sub_id :: string
  sub_status :: string
  cancel_at_period_end :: "bool option"
  current_period_end :: "int option"

text \<open>An event is its \<open>type\<close> together with \<open>data.object\<close>.\<close>

datatype event =
    CheckoutSessionCompleted session
  | SubscriptionUpdated stripe_sub
  | SubscriptionDeleted stripe_sub
  | OtherEvent string

text \<open>A thrown error: its \<open>message\<close> and what \<open>String(e)\<close> gives.\<close>

datatype exn = Exn (message: string) (to_text: string)

text \<open>
  What the collaborators answer during one handler run. Every call that can reject is a
  function to an option or a sum: \<open>None\<close> and \<open>Inl\<close> stand for the rejected promise.
  \<open>subscriptions_retrieve_expanded\<close> is the retrieval with
  \<open>expand: ["latest_invoice.payment_intent"]\<close>, read for \<open>sub.latest_invoice?.payment_intent?.id\<close>.
  \<open>to_number\<close> is the host's \<open>Number(text) || 0\<close> on metadata text.
\<close>

record env =
  now :: int
  constructEvent :: "string \<Rightarrow> string option \<Rightarrow> string + event"
  subscriptions_retrieve :: "string \<Rightarrow> stripe_sub option"
  subscriptions_retrieve_expanded :: "string \<Rightarrow> exn + string option"
  refunds_create :: "string \<Rightarrow> exn + string"
  subscriptions_cancel :: "string \<Rightarrow> exn + unit"
  guilds_fetch :: "string \<Rightarrow> bool"
  members_fetch :: "string \<Rightarrow> string \<Rightarrow> bool"
  users_fetch :: "string \<Rightarrow> bool"
  channels_fetch_text :: "string \<Rightarrow> bool"
  channels_cached_purchase_log :: "string option"
  channels_create :: "string option"
  to_number :: "string \<Rightarrow> nat"

text \<open>Calls made on the collaborators, in the order they are issued.\<close>

datatype effect =
    StripeSubscriptionsRetrieve string
  | StripeRefundsCreate string
  | StripeSubscriptionsCancel string
  | RolesAdd string string string
  | RolesRemove string string string
  | ChannelsCreate string
  | ChannelSend string string
  | DirectMessage string
  | InteractionDefer
  | InteractionReply string
  | InteractionUpdate string

datatype http_response = Json_received | Send nat string

fun http_status :: "http_response \<Rightarrow> nat" where
  "http_status Json_received = 200"
| "http_status (Send code body) = code"

section \<open>Configuration\<close>

definition getConfig :: "store \<Rightarrow> string \<Rightarrow> config option" where
  "getConfig s g = findOne (\<lambda>c. cfg_guildId c = g) (configCol s)"

definition upsertConfig :: "int \<Rightarrow> string \<Rightarrow> (config \<Rightarrow> config) \<Rightarrow> store \<Rightarrow> store" where
  "upsertConfig t g patch s =
     (let upd = (\<lambda>c. (patch c)\<lparr>cfg_updatedAt := Some t\<rparr>) in
      case findOne (\<lambda>c. cfg_guildId c = g) (configCol s) of
        Some c \<Rightarrow> s\<lparr>configCol := updateOne (\<lambda>c. cfg_guildId c = g) upd (configCol s)\<rparr>
      | None \<Rightarrow>
          s\<lparr>configCol := configCol s @
             [upd \<lparr>cfg_guildId = g, cfg_purchaseLogChannelId = None, cfg_thanksChannelId = None,
                   cfg_supportRoleId = None, cfg_ticketPanelMessageId = None,
                   cfg_updatedAt = None\<rparr>]\<rparr>)"

text \<open>
  \<open>ensurePurchaseLogChannel\<close>: the configured channel if it can still be fetched, else a
  cached channel named \<open>purchase-log\<close>, else a newly created one; the last two write the
  configuration. The first component is the channel id, \<open>None\<close> when creation rejects.
\<close>

definition ensurePurchaseLogChannel ::
  "env \<Rightarrow> string \<Rightarrow> store \<Rightarrow> string option \<times> store \<times> effect list" where
  "ensurePurchaseLogChannel e g s =
     (let configured = (case getConfig s g of None \<Rightarrow> None
                        | Some c \<Rightarrow> or_null (cfg_purchaseLogChannelId c)) in
      if (case configured of Some cid \<Rightarrow> channels_fetch_text e cid | None \<Rightarrow> False)
      then (configured, s, [])
      else case channels_cached_purchase_log e of
        Some cid \<Rightarrow>
          (Some cid, upsertConfig (now e) g (\<lambda>c. c\<lparr>cfg_purchaseLogChannelId := Some cid\<rparr>) s, [])
      | None \<Rightarrow>
          (case channels_create e of
             None \<Rightarrow> (None, s, [ChannelsCreate ''purchase-log''])
           | Some cid \<Rightarrow>
               (Some cid, upsertConfig (now e) g (\<lambda>c. c\<lparr>cfg_purchaseLogChannelId := Some cid\<rparr>) s,
                [ChannelsCreate ''purchase-log''])))"

text \<open>\<open>logToPurchaseLog\<close>; the boolean is false when the call threw.\<close>

definition logToPurchaseLog ::
  "env \<Rightarrow> string \<Rightarrow> string \<Rightarrow> store \<Rightarrow> bool \<times> store \<times> effect list" where
  "logToPurchaseLog e g title s =
     (case ensurePurchaseLogChannel e g s of
        (None, s', effs) \<Rightarrow> (False, s', effs)
      | (Some cid, s', effs) \<Rightarrow> (True, s', effs @ [ChannelSend cid title]))"

definition sendThanksIfConfigured :: "env \<Rightarrow> string \<Rightarrow> store \<Rightarrow> effect list" where
  "sendThanksIfConfigured e g s =
     (case getConfig s g of
        None \<Rightarrow> []
      | Some c \<Rightarrow>
          (case or_null (cfg_thanksChannelId c) of
             None \<Rightarrow> []
           | Some cid \<Rightarrow> if channels_fetch_text e cid then [ChannelSend cid ''Thank you!''] else []))"

section \<open>Checkout sessions\<close>

text \<open>
  The metadata objects that \<open>createCheckoutSessionForProduct\<close> and
  \<open>createCheckoutSessionForDonation\<close> of \<open>index.js\<close> pass to
  \<open>stripe.checkout.sessions.create\<close>. The amount of a product session is
  \<open>product.prices[planKey].amountMinor\<close>, which \<open>makeLineItemForProduct\<close> has found
  present; \<open>String(amountMinor)\<close> is the amount in decimal. Both functions are called
  with \<open>interaction.guild.id\<close> and \<open>interaction.user.id\<close>, from handlers that run behind
  \<open>ensureAllowedGuild\<close>. The revisions in \<open>part_000\<close> add the keys \<open>reference_code\<close> and
  \<open>mode_tag\<close> and write the keys below as \<open>index.js\<close> does.
\<close>

definition product_metadata ::
  "string \<Rightarrow> string \<Rightarrow> string \<Rightarrow> product \<Rightarrow> string \<Rightarrow> nat \<Rightarrow> (string \<rightharpoonup> string)" where
  "product_metadata pid gid uid pr plan amount =
     [''purchase_id'' \<mapsto> pid, ''guild_id'' \<mapsto> gid, ''user_id'' \<mapsto> uid,
      ''type'' \<mapsto> ''product'', ''product_id'' \<mapsto> prod_id pr, ''product_name'' \<mapsto> prod_name pr,
      ''plan_key'' \<mapsto> plan, ''role_id'' \<mapsto> prod_roleId pr,
      ''amount_minor'' \<mapsto> dec_string amount, ''currency'' \<mapsto> CURRENCY]"

definition donation_metadata :: "string \<Rightarrow> string \<Rightarrow> string \<Rightarrow> nat \<Rightarrow> (string \<rightharpoonup> string)" where
  "donation_metadata pid gid uid amount =
     [''purchase_id'' \<mapsto> pid, ''guild_id'' \<mapsto> gid, ''user_id'' \<mapsto> uid,
      ''type'' \<mapsto> ''donation'', ''amount_minor'' \<mapsto> dec_string amount,
      ''currency'' \<mapsto> CURRENCY]"

section \<open>The webhook: \<open>POST /stripe/webhook\<close>\<close>

definition meta_of :: "session \<Rightarrow> string \<Rightarrow> string option" where
  "meta_of sess k = (case metadata sess of None \<Rightarrow> None | Some m \<Rightarrow> m k)"

text \<open>\<open>!!v\<close> on an optional boolean.\<close>

definition not_not :: "bool option \<Rightarrow> bool" where
  "not_not v = (case v of None \<Rightarrow> False | Some b \<Rightarrow> b)"

text \<open>\<open>sub.current_period_end ? new Date(sub.current_period_end * 1000) : null\<close>.\<close>

definition period_end_date :: "stripe_sub \<Rightarrow> int option" where
  "period_end_date sub =
     (case current_period_end sub of None \<Rightarrow> None
      | Some t \<Rightarrow> if t = 0 then None else Some (t * 1000))"

text \<open>\<open>Number(meta.amount_minor || 0) || 0\<close>.\<close>

definition meta_amount :: "env \<Rightarrow> string option \<Rightarrow> nat" where
  "meta_amount e v = (case or_null v of None \<Rightarrow> 0 | Some txt \<Rightarrow> to_number e txt)"

text \<open>
  The subscription side data \<open>(currentPeriodEnd, subscriptionStatus, cancelAtPeriodEnd)\<close>,
  read from Stripe when the session has a subscription. \<open>None\<close> in the first component:
  \<open>stripe.subscriptions.retrieve\<close> threw.
\<close>

type_synonym side_data = "int option \<times> string option \<times> bool option"

definition resolve_subscription :: "env \<Rightarrow> string option \<Rightarrow> side_data option \<times> effect list" where
  "resolve_subscription e subid =
     (case subid of
        None \<Rightarrow> (Some (None, None, None), [])
      | Some sid \<Rightarrow>
          (case subscriptions_retrieve e sid of
             None \<Rightarrow> (None, [StripeSubscriptionsRetrieve sid])
           | Some sub \<Rightarrow>
               (Some (period_end_date sub, Some (sub_status sub),
                      Some (not_not (cancel_at_period_end sub))),
                [StripeSubscriptionsRetrieve sid])))"

text \<open>The \<open>$set\<close> of the paid transition.\<close>

definition set_paid :: "int \<Rightarrow> string option \<Rightarrow> string option \<Rightarrow> side_data \<Rightarrow> purchase \<Rightarrow> purchase" where
  "set_paid t pint subid side p =
     (case side of (cpe, sst, cape) \<Rightarrow>
        p\<lparr>status := ''paid'', paidAt := Some t, stripePaymentIntentId := pint,
          stripeSubscriptionId := subid, currentPeriodEnd := cpe,
          subscriptionStatus := sst, cancelAtPeriodEnd := cape\<rparr>)"

text \<open>The document an upsert creates: the \<open>$setOnInsert\<close> fields, everything else absent.\<close>

definition inserted_purchase ::
  "env \<Rightarrow> session \<Rightarrow> string \<Rightarrow> string \<Rightarrow> string \<Rightarrow> string \<Rightarrow> purchase" where
  "inserted_purchase e sess pid gid uid ty =
     \<lparr>purchaseId = pid, guildId = gid, userId = uid, ptype = ty,
      productId = None, productName = None, planKey = None, roleId = None,
      p_amountMinor = meta_amount e (meta_of sess ''amount_minor''),
      currency = or_else (meta_of sess ''currency'') CURRENCY,
      referenceCode = None,
      stripeSessionId = Some (sess_id sess), status = [],
      createdAt = Some (now e), paidAt = None,
      stripePaymentIntentId = None, stripeSubscriptionId = None, currentPeriodEnd = None,
      subscriptionStatus = None, cancelAtPeriodEnd = None, refundedAt = None,
      stripeRefundId = None, subscriptionUpdatedAt = None, subscriptionEndedAt = None\<rparr>"

text \<open>
  \<open>findOneAndUpdate\<close> on \<open>{ purchaseId, stripeSessionId }\<close>, whose result carries the
  updated document, or \<open>null\<close>, in \<open>value\<close>; when there is none, \<open>updateOne\<close> on
  \<open>{ stripeSessionId }\<close> with \<open>upsert: true\<close>. An insertion whose purchase id is already
  taken violates the unique index: the result is \<open>None\<close>.
\<close>

definition paid_upsert ::
  "(purchase \<Rightarrow> purchase) \<Rightarrow> purchase \<Rightarrow> string \<Rightarrow> string \<Rightarrow> purchase list \<Rightarrow> purchase list option" where
  "paid_upsert setp fresh pid sid col =
     (case findOne (\<lambda>p. purchaseId p = pid \<and> stripeSessionId p = Some sid) col of
        Some found \<Rightarrow>
          Some (updateOne (\<lambda>p. purchaseId p = pid \<and> stripeSessionId p = Some sid) setp col)
      | None \<Rightarrow>
          (case findOne (\<lambda>p. stripeSessionId p = Some sid) col of
             Some found \<Rightarrow> Some (updateOne (\<lambda>p. stripeSessionId p = Some sid) setp col)
           | None \<Rightarrow>
               (case findOne (\<lambda>p. purchaseId p = pid) col of
                  Some clash \<Rightarrow> None
                | None \<Rightarrow> Some (col @ [setp fresh]))))"

text \<open>The role grant: gated on \<open>type === "product" && meta.role_id\<close>; a failure is logged.\<close>

definition grant_role :: "env \<Rightarrow> session \<Rightarrow> string \<Rightarrow> string \<Rightarrow> string \<Rightarrow> effect list" where
  "grant_role e sess gid uid ty =
     (case or_null (meta_of sess ''role_id'') of
        None \<Rightarrow> []
      | Some role \<Rightarrow>
          if ty = ''product'' then (if members_fetch e gid uid then [RolesAdd gid uid role] else [])
          else [])"

text \<open>The steps after the purchase has been written.\<close>

definition after_paid ::
  "env \<Rightarrow> session \<Rightarrow> string \<Rightarrow> string \<Rightarrow> string \<Rightarrow> store \<Rightarrow> effect list
     \<Rightarrow> http_response \<times> store \<times> effect list" where
  "after_paid e sess gid uid ty s effs =
     (if \<not> guilds_fetch e gid then (Json_received, s, effs)
      else
        let effs1 = effs @ grant_role e sess gid uid ty in
        case logToPurchaseLog e gid ''Purchase Completed'' s of
          (False, s', effs2) \<Rightarrow> (Send 500 ''Webhook handler failed'', s', effs1 @ effs2)
        | (True, s', effs2) \<Rightarrow>
            (Json_received, s',
             effs1 @ effs2 @ (if ty = ''product'' then sendThanksIfConfigured e gid s' else [])))"

definition checkout_completed :: "env \<Rightarrow> session \<Rightarrow> store \<Rightarrow> http_response \<times> store \<times> effect list" where
  "checkout_completed e sess s =
     (case (or_null (meta_of sess ''purchase_id''), or_null (meta_of sess ''guild_id''),
            or_null (meta_of sess ''user_id''), or_null (meta_of sess ''type'')) of
        (Some pid, Some gid, Some uid, Some ty) \<Rightarrow>
          if gid \<noteq> ALLOWED_GUILD_ID then (Json_received, s, [])
          else
            let pint = or_null (payment_intent sess); subid = or_null (subscription sess) in
            (case resolve_subscription e subid of
               (None, effs) \<Rightarrow> (Send 500 ''Webhook handler failed'', s, effs)
             | (Some side, effs) \<Rightarrow>
                 (case paid_upsert (set_paid (now e) pint subid side)
                         (inserted_purchase e sess pid gid uid ty) pid (sess_id sess)
                         (purchasesCol s) of
                    None \<Rightarrow> (Send 500 ''Webhook handler failed'', s, effs)
                  | Some col \<Rightarrow> after_paid e sess gid uid ty (s\<lparr>purchasesCol := col\<rparr>) effs))
      | other \<Rightarrow> (Json_received, s, []))"

definition subscription_updated :: "env \<Rightarrow> stripe_sub \<Rightarrow> store \<Rightarrow> http_response \<times> store \<times> effect list" where
  "subscription_updated e sub s =
     (Json_received,
      s\<lparr>purchasesCol :=
          updateMany (\<lambda>p. stripeSubscriptionId p = Some (sub_id sub) \<and> status p = ''paid'')
            (\<lambda>p. p\<lparr>subscriptionStatus := Some (sub_status sub),
                   cancelAtPeriodEnd := Some (not_not (cancel_at_period_end sub)),
                   currentPeriodEnd := period_end_date sub,
                   subscriptionUpdatedAt := Some (now e)\<rparr>)
            (purchasesCol s)\<rparr>,
      [])"

text \<open>
  \<open>findOne(filter, { sort: { paidAt: -1 } })\<close>: of the matching documents the one paid most
  recently, a missing \<open>paidAt\<close> sorting last; of equally recent ones the first in the
  collection.
\<close>

fun newer :: "int option \<Rightarrow> int option \<Rightarrow> bool" where
  "newer (Some a) (Some b) = (b < a)"
| "newer (Some a) None = True"
| "newer None b = False"

fun most_recent :: "purchase list \<Rightarrow> purchase option" where
  "most_recent [] = None"
| "most_recent (p # ps) =
     (case most_recent ps of
        None \<Rightarrow> Some p
      | Some q \<Rightarrow> if newer (paidAt q) (paidAt p) then Some q else Some p)"

definition findOne_latest :: "(purchase \<Rightarrow> bool) \<Rightarrow> purchase list \<Rightarrow> purchase option" where
  "findOne_latest flt col = most_recent (filter flt col)"

text \<open>The role removal of \<open>customer.subscription.deleted\<close>; a failure is logged.\<close>

definition remove_role :: "env \<Rightarrow> purchase \<Rightarrow> effect list" where
  "remove_role e p =
     (if members_fetch e (guildId p) (userId p) then
        (case or_null (roleId p) of
           None \<Rightarrow> []
         | Some role \<Rightarrow> [RolesRemove (guildId p) (userId p) role])
      else [])"

definition mark_subscription_ended :: "int \<Rightarrow> string \<Rightarrow> purchase list \<Rightarrow> purchase list" where
  "mark_subscription_ended t sid col =
     updateMany (\<lambda>p. stripeSubscriptionId p = Some sid \<and> status p = ''paid'')
       (\<lambda>p. p\<lparr>subscriptionStatus := Some ''canceled'', subscriptionEndedAt := Some t\<rparr>) col"

definition subscription_deleted :: "env \<Rightarrow> stripe_sub \<Rightarrow> store \<Rightarrow> http_response \<times> store \<times> effect list" where
  "subscription_deleted e sub s =
     (let ended = (\<lambda>s'. s'\<lparr>purchasesCol := mark_subscription_ended (now e) (sub_id sub) (purchasesCol s')\<rparr>) in
      case findOne_latest
             (\<lambda>p. stripeSubscriptionId p = Some (sub_id sub) \<and> status p = ''paid'' \<and> ptype p = ''product'')
             (purchasesCol s) of
        None \<Rightarrow> (Json_received, ended s, [])
      | Some p \<Rightarrow>
          if \<not> guilds_fetch e (guildId p) then (Json_received, ended s, [])
          else
            (case logToPurchaseLog e (guildId p) ''Subscription Ended'' s of
               (False, s', effs) \<Rightarrow> (Send 500 ''Webhook handler failed'', s', remove_role e p @ effs)
             | (True, s', effs) \<Rightarrow> (Json_received, ended s', remove_role e p @ effs)))"

text \<open>
  The handler of \<open>index.js\<close>. \<open>constructEvent\<close> verifies the signature over the raw body;
  when it throws, the handler answers 400 and returns.
\<close>

definition stripe_webhook ::
  "env \<Rightarrow> string \<Rightarrow> string option \<Rightarrow> store \<Rightarrow> http_response \<times> store \<times> effect list" where
  "stripe_webhook e body signature s =
     (case constructEvent e body signature of
        Inl msg \<Rightarrow> (Send 400 (''Webhook Error: '' @ msg), s, [])
      | Inr ev \<Rightarrow>
          (case ev of
             CheckoutSessionCompleted sess \<Rightarrow> checkout_completed e sess s
           | SubscriptionUpdated sub \<Rightarrow> subscription_updated e sub s
           | SubscriptionDeleted sub \<Rightarrow> subscription_deleted e sub s
           | OtherEvent ty \<Rightarrow> (Json_received, s, [])))"

section \<open>The webhook of the entitlement revision\<close>

text \<open>\<open>getConfig\<close> behind its 30 second cache, and \<open>upsertConfig\<close> dropping the cache entry.\<close>

definition CONFIG_CACHE_TTL_MS :: int where
  "CONFIG_CACHE_TTL_MS = 30000"

definition getConfig_cached :: "env \<Rightarrow> string \<Rightarrow> store \<Rightarrow> config option \<times> store" where
  "getConfig_cached e g s =
     (let reload = (let doc = findOne (\<lambda>c. cfg_guildId c = g) (configCol s) in
                    (doc, s\<lparr>configCache := (configCache s)(g \<mapsto> (doc, now e + CONFIG_CACHE_TTL_MS))\<rparr>)) in
      case configCache s g of
        None \<Rightarrow> reload
      | Some (doc, expiry) \<Rightarrow> if now e < expiry then (doc, s) else reload)"

definition upsertConfig_cached :: "int \<Rightarrow> string \<Rightarrow> (config \<Rightarrow> config) \<Rightarrow> store \<Rightarrow> store" where
  "upsertConfig_cached t g patch s =
     (let s' = upsertConfig t g patch s in s'\<lparr>configCache := (configCache s')(g := None)\<rparr>)"

definition ensurePurchaseLogChannel_cached ::
  "env \<Rightarrow> string \<Rightarrow> store \<Rightarrow> string option \<times> store \<times> effect list" where
  "ensurePurchaseLogChannel_cached e g s =
     (case getConfig_cached e g s of
        (cfg, s0) \<Rightarrow>
          let configured = (case cfg of None \<Rightarrow> None
                            | Some c \<Rightarrow> or_null (cfg_purchaseLogChannelId c)) in
          if (case configured of Some cid \<Rightarrow> channels_fetch_text e cid | None \<Rightarrow> False)
          then (configured, s0, [])
          else case channels_cached_purchase_log e of
            Some cid \<Rightarrow>
              (Some cid,
               upsertConfig_cached (now e) g (\<lambda>c. c\<lparr>cfg_purchaseLogChannelId := Some cid\<rparr>) s0, [])
          | None \<Rightarrow>
              (case channels_create e of
                 None \<Rightarrow> (None, s0, [ChannelsCreate ''purchase-log''])
               | Some cid \<Rightarrow>
                   (Some cid,
                    upsertConfig_cached (now e) g (\<lambda>c. c\<lparr>cfg_purchaseLogChannelId := Some cid\<rparr>) s0,
                    [ChannelsCreate ''purchase-log''])))"

definition logToPurchaseLog_cached ::
  "env \<Rightarrow> string \<Rightarrow> string \<Rightarrow> store \<Rightarrow> bool \<times> store \<times> effect list" where
  "logToPurchaseLog_cached e g title s =
     (case ensurePurchaseLogChannel_cached e g s of
        (None, s', effs) \<Rightarrow> (False, s', effs)
      | (Some cid, s', effs) \<Rightarrow> (True, s', effs @ [ChannelSend cid title]))"

text \<open>\<open>meta.reference_code && meta.reference_code !== "none" ? meta.reference_code : null\<close>.\<close>

definition meta_reference_code :: "session \<Rightarrow> string option" where
  "meta_reference_code sess =
     (case or_null (meta_of sess ''reference_code'') of
        None \<Rightarrow> None
      | Some code \<Rightarrow> if code = ''none'' then None else Some code)"

text \<open>
  \<open>updateOne\<close> on \<open>{ purchaseId, stripeSessionId }\<close> with \<open>upsert: true\<close>. An insertion whose
  purchase id or session id is already taken violates a unique index: the result is \<open>None\<close>.
\<close>

definition paid_upsert_ent ::
  "(purchase \<Rightarrow> purchase) \<Rightarrow> purchase \<Rightarrow> string \<Rightarrow> string \<Rightarrow> purchase list \<Rightarrow> purchase list option" where
  "paid_upsert_ent setp fresh pid sid col =
     (case findOne (\<lambda>p. purchaseId p = pid \<and> stripeSessionId p = Some sid) col of
        Some found \<Rightarrow>
          Some (updateOne (\<lambda>p. purchaseId p = pid \<and> stripeSessionId p = Some sid) setp col)
      | None \<Rightarrow>
          (case findOne (\<lambda>p. purchaseId p = pid) col of
             Some clash \<Rightarrow> None
           | None \<Rightarrow>
               (case findOne (\<lambda>p. stripeSessionId p = Some sid) col of
                  Some clash \<Rightarrow> None
                | None \<Rightarrow> Some (col @ [setp fresh]))))"

text \<open>The entitlement upsert on \<open>{ guildId, userId, productId }\<close>.\<close>

definition set_entitlement ::
  "int \<Rightarrow> string \<Rightarrow> string \<Rightarrow> string \<Rightarrow> string \<Rightarrow> string option \<Rightarrow> string
     \<Rightarrow> string option \<Rightarrow> side_data \<Rightarrow> entitlement \<Rightarrow> entitlement" where
  "set_entitlement t gid uid prid plan code pid subid side en =
     (case side of (cpe, sst, cape) \<Rightarrow>
        en\<lparr>ent_guildId := gid, ent_userId := uid, ent_productId := prid,
           ent_status := ''active'', ent_planKey := plan, ent_referenceCode := code,
           ent_lastPurchaseId := Some pid, ent_stripeSubscriptionId := subid,
           ent_currentPeriodEnd := cpe, ent_subscriptionStatus := or_null sst,
           ent_updatedAt := Some t\<rparr>)"

definition upsert_entitlement ::
  "int \<Rightarrow> string \<Rightarrow> string \<Rightarrow> string \<Rightarrow> (entitlement \<Rightarrow> entitlement) \<Rightarrow> entitlement list
     \<Rightarrow> entitlement list" where
  "upsert_entitlement t gid uid prid sete col =
     (case findOne (\<lambda>en. ent_guildId en = gid \<and> ent_userId en = uid \<and> ent_productId en = prid) col of
        Some found \<Rightarrow>
          updateOne (\<lambda>en. ent_guildId en = gid \<and> ent_userId en = uid \<and> ent_productId en = prid) sete col
      | None \<Rightarrow>
          col @ [sete \<lparr>ent_guildId = gid, ent_userId = uid, ent_productId = prid, ent_status = [],
                       ent_planKey = [], ent_referenceCode = None, ent_lastPurchaseId = None,
                       ent_stripeSubscriptionId = None, ent_currentPeriodEnd = None,
                       ent_subscriptionStatus = None, ent_createdAt = Some t,
                       ent_updatedAt = None, ent_revokedAt = None, ent_revokedBy = None\<rparr>])"

text \<open>\<open>dmUser\<close> with the upgrade hint for one-time buyers.\<close>

definition upgrade_hint :: "env \<Rightarrow> string \<Rightarrow> string \<Rightarrow> string \<Rightarrow> string \<Rightarrow> store \<Rightarrow> effect list" where
  "upgrade_hint e gid uid prid plan s =
     (case findOne (\<lambda>pr. prod_id pr = prid \<and> prod_guildId pr = gid) (productsCol s) of
        None \<Rightarrow> []
      | Some pr \<Rightarrow>
          if plan = ''one_time'' \<and> truthy_amount (plan_amount (prod_prices pr) ''monthly'')
          then (if users_fetch e uid then [DirectMessage uid] else [])
          else [])"

text \<open>The entitlement step: gated on \<open>type === "product" && meta.product_id\<close>.\<close>

definition entitlement_step ::
  "env \<Rightarrow> session \<Rightarrow> string \<Rightarrow> string \<Rightarrow> string \<Rightarrow> string \<Rightarrow> string option \<Rightarrow> side_data
     \<Rightarrow> store \<Rightarrow> store \<times> effect list" where
  "entitlement_step e sess pid gid uid ty subid side s =
     (case or_null (meta_of sess ''product_id'') of
        None \<Rightarrow> (s, [])
      | Some prid \<Rightarrow>
          if ty = ''product'' then
            (let plan = or_else (meta_of sess ''plan_key'') ''one_time'';
                 s' = s\<lparr>entitlementsCol :=
                         upsert_entitlement (now e) gid uid prid
                           (set_entitlement (now e) gid uid prid plan (meta_reference_code sess)
                              pid subid side)
                           (entitlementsCol s)\<rparr>
             in (s', upgrade_hint e gid uid prid plan s'))
          else (s, []))"

definition after_paid_ent ::
  "env \<Rightarrow> session \<Rightarrow> string \<Rightarrow> string \<Rightarrow> string \<Rightarrow> string \<Rightarrow> string option \<Rightarrow> side_data
     \<Rightarrow> store \<Rightarrow> effect list \<Rightarrow> http_response \<times> store \<times> effect list" where
  "after_paid_ent e sess pid gid uid ty subid side s effs =
     (if \<not> guilds_fetch e gid then (Json_received, s, effs)
      else
        let effs1 = effs @ grant_role e sess gid uid ty in
        case entitlement_step e sess pid gid uid ty subid side s of
          (s1, effs2) \<Rightarrow>
            (case logToPurchaseLog_cached e gid ''Purchase Completed'' s1 of
               (False, s2, effs3) \<Rightarrow> (Send 500 ''Webhook handler failed'', s2, effs1 @ effs2 @ effs3)
             | (True, s2, effs3) \<Rightarrow> (Json_received, s2, effs1 @ effs2 @ effs3)))"

definition checkout_completed_ent ::
  "env \<Rightarrow> session \<Rightarrow> store \<Rightarrow> http_response \<times> store \<times> effect list" where
  "checkout_completed_ent e sess s =
     (case (or_null (meta_of sess ''purchase_id''), or_null (meta_of sess ''guild_id''),
            or_null (meta_of sess ''user_id''), or_null (meta_of sess ''type'')) of
        (Some pid, Some gid, Some uid, Some ty) \<Rightarrow>
          if gid \<noteq> ALLOWED_GUILD_ID then (Json_received, s, [])
          else
            let pint = or_null (payment_intent sess); subid = or_null (subscription sess) in
            (case resolve_subscription e subid of
               (None, effs) \<Rightarrow> (Send 500 ''Webhook handler failed'', s, effs)
             | (Some side, effs) \<Rightarrow>
                 (case paid_upsert_ent
                         (\<lambda>p. (set_paid (now e) pint subid side p)
                                 \<lparr>planKey := or_null (meta_of sess ''plan_key''),
                                  productId := or_null (meta_of sess ''product_id'')\<rparr>)
                         ((inserted_purchase e sess pid gid uid ty)
                            \<lparr>referenceCode := meta_reference_code sess\<rparr>)
                         pid (sess_id sess) (purchasesCol s) of
                    None \<Rightarrow> (Send 500 ''Webhook handler failed'', s, effs)
                  | Some col \<Rightarrow>
                      after_paid_ent e sess pid gid uid ty subid side (s\<lparr>purchasesCol := col\<rparr>) effs))
      | other \<Rightarrow> (Json_received, s, []))"

text \<open>This revision handles \<open>checkout.session.completed\<close> only.\<close>

definition stripe_webhook_ent ::
  "env \<Rightarrow> string \<Rightarrow> string option \<Rightarrow> store \<Rightarrow> http_response \<times> store \<times> effect list" where
  "stripe_webhook_ent e body signature s =
     (case constructEvent e body signature of
        Inl msg \<Rightarrow> (Send 400 (''Webhook Error: '' @ msg), s, [])
      | Inr ev \<Rightarrow>
          (case ev of
             CheckoutSessionCompleted sess \<Rightarrow> checkout_completed_ent e sess s
           | SubscriptionUpdated sub \<Rightarrow> (Json_received, s, [])
           | SubscriptionDeleted sub \<Rightarrow> (Json_received, s, [])
           | OtherEvent ty \<Rightarrow> (Json_received, s, [])))"

section \<open>Refunds\<close>

text \<open>
  \<open>await stripe.subscriptions.cancel(...).catch(() => {})\<close>: the call is issued, and a
  rejection is swallowed.
\<close>

definition cancel_subscription :: "env \<Rightarrow> string \<Rightarrow> effect list" where
  "cancel_subscription e sid =
     (case subscriptions_cancel e sid of
        Inl x \<Rightarrow> [StripeSubscriptionsCancel sid]
      | Inr done \<Rightarrow> [StripeSubscriptionsCancel sid])"

text \<open>
  \<open>executeRefundInternal\<close>: refund the payment intent on record; failing that, the payment
  intent of the subscription's latest invoice, and cancel the subscription; with neither
  reference, throw. \<open>Inl\<close> is the thrown error, \<open>Inr\<close> the refund id, which stays \<open>null\<close>
  when the latest invoice has no payment intent.
\<close>

definition executeRefundInternal :: "env \<Rightarrow> purchase \<Rightarrow> (exn + string option) \<times> effect list" where
  "executeRefundInternal e p =
     (case or_null (stripePaymentIntentId p) of
        Some pint \<Rightarrow>
          (case refunds_create e pint of
             Inl x \<Rightarrow> (Inl x, [StripeRefundsCreate pint])
           | Inr rid \<Rightarrow> (Inr (Some rid), [StripeRefundsCreate pint]))
      | None \<Rightarrow>
          (case or_null (stripeSubscriptionId p) of
             Some sid \<Rightarrow>
               (case subscriptions_retrieve_expanded e sid of
                  Inl x \<Rightarrow> (Inl x, [StripeSubscriptionsRetrieve sid])
                | Inr latest \<Rightarrow>
                    (case or_null latest of
                       None \<Rightarrow>
                         (Inr None, StripeSubscriptionsRetrieve sid # cancel_subscription e sid)
                     | Some pint \<Rightarrow>
                         (case refunds_create e pint of
                            Inl x \<Rightarrow>
                              (Inl x, [StripeSubscriptionsRetrieve sid, StripeRefundsCreate pint])
                          | Inr rid \<Rightarrow>
                              (Inr (Some rid),
                               [StripeSubscriptionsRetrieve sid, StripeRefundsCreate pint]
                               @ cancel_subscription e sid))))
           | None \<Rightarrow>
               (Inl (Exn ''No Stripe payment references on record.''
                         ''Error: No Stripe payment references on record.''), [])))"

text \<open>A button interaction, as far as the refund handlers read it.\<close>

record interaction =
  i_guild :: "string option"
  i_user :: string
  i_admin :: bool
  i_customId :: string

text \<open>\<open>const [action, requestId] = interaction.customId.split(":")\<close>, behind the two
  \<open>startsWith\<close> tests.\<close>

definition refund_customId :: "string \<Rightarrow> (string \<times> string) option" where
  "refund_customId cid =
     (if startsWith cid ''refund_approve:'' \<or> startsWith cid ''refund_reject:'' then
        (case segment1 CHR '':'' cid of
           None \<Rightarrow> None
         | Some rid \<Rightarrow> Some (segment0 CHR '':'' cid, rid))
      else None)"

text \<open>\<open>!paidAt || Date.now() - paidAt.getTime() > REFUND_WINDOW_MS\<close>.\<close>

definition window_expired :: "int \<Rightarrow> int option \<Rightarrow> bool" where
  "window_expired t paid =
     (case paid of None \<Rightarrow> True | Some t0 \<Rightarrow> REFUND_WINDOW_MS < t - t0)"

text \<open>\<open>String(e.message || e).slice(0, 200)\<close>.\<close>

definition failure_text :: "exn \<Rightarrow> string" where
  "failure_text x = take 200 (if message x = [] then to_text x else message x)"

definition update_request :: "string \<Rightarrow> (refund_request \<Rightarrow> refund_request) \<Rightarrow> store \<Rightarrow> store" where
  "update_request rid upd s =
     s\<lparr>refundRequestsCol := updateOne (\<lambda>r. rr_requestId r = rid) upd (refundRequestsCol s)\<rparr>"

definition request_failed :: "int \<Rightarrow> string \<Rightarrow> refund_request \<Rightarrow> refund_request" where
  "request_failed t why r = r\<lparr>rr_status := ''failed'', rr_failedAt := Some t, rr_failureReason := Some why\<rparr>"

definition request_rejected :: "int \<Rightarrow> string \<Rightarrow> refund_request \<Rightarrow> refund_request" where
  "request_rejected t who r = r\<lparr>rr_status := ''rejected'', rr_rejectedAt := Some t, rr_rejectedBy := Some who\<rparr>"

definition purchase_refunded :: "int \<Rightarrow> string option \<Rightarrow> purchase \<Rightarrow> purchase" where
  "purchase_refunded t rid p = p\<lparr>status := ''refunded'', refundedAt := Some t, stripeRefundId := rid\<rparr>"

text \<open>The role removal after a refund: \<open>purchase.type === "product" && purchase.roleId\<close>.\<close>

definition refund_remove_role :: "env \<Rightarrow> purchase \<Rightarrow> effect list" where
  "refund_remove_role e p =
     (case or_null (roleId p) of
        None \<Rightarrow> []
      | Some role \<Rightarrow>
          if ptype p = ''product'' then
            (if members_fetch e (guildId p) (userId p)
             then [RolesRemove (guildId p) (userId p) role] else [])
          else [])"

text \<open>The approve branch of \<open>index.js\<close>, from \<open>deferUpdate\<close> on.\<close>

definition approve_refund ::
  "env \<Rightarrow> interaction \<Rightarrow> string \<Rightarrow> string \<Rightarrow> refund_request \<Rightarrow> store \<Rightarrow> store \<times> effect list" where
  "approve_refund e i g rid reqDoc s =
     (case findOne (\<lambda>p. purchaseId p = rr_purchaseId reqDoc \<and> guildId p = g) (purchasesCol s) of
        None \<Rightarrow>
          (update_request rid (request_failed (now e) ''Purchase not found'') s,
           [InteractionDefer, InteractionUpdate ''failed (missing purchase)''])
      | Some p \<Rightarrow>
          if window_expired (now e) (paidAt p) then
            (update_request rid (request_failed (now e) ''Refund window expired'') s,
             [InteractionDefer, InteractionUpdate ''failed (window expired)''])
          else
            let s1 = update_request rid
                       (\<lambda>r. r\<lparr>rr_status := ''approved'', rr_approvedAt := Some (now e),
                              rr_approvedBy := Some (i_user i)\<rparr>) s
            in case executeRefundInternal e p of
                 (Inl x, effs) \<Rightarrow>
                   (update_request rid (request_failed (now e) (failure_text x)) s1,
                    InteractionDefer # effs @ [InteractionUpdate ''failed''])
               | (Inr refundId, effs) \<Rightarrow>
                   (let s2 = s1\<lparr>purchasesCol :=
                                  updateOne (\<lambda>q. purchaseId q = purchaseId p)
                                    (purchase_refunded (now e) refundId) (purchasesCol s1)\<rparr>;
                        s3 = update_request rid
                               (\<lambda>r. r\<lparr>rr_status := ''executed'', rr_executedAt := Some (now e)\<rparr>) s2
                    in (s3, InteractionDefer # effs @ refund_remove_role e p
                              @ [InteractionUpdate ''refunded''])))"

text \<open>The handler of the approve and reject buttons in \<open>index.js\<close>.\<close>

definition refund_button :: "env \<Rightarrow> interaction \<Rightarrow> store \<Rightarrow> store \<times> effect list" where
  "refund_button e i s =
     (case i_guild i of
        None \<Rightarrow> (s, [InteractionReply ''This bot is locked to one server. Not this one.''])
      | Some g \<Rightarrow>
          if g \<noteq> ALLOWED_GUILD_ID then
            (s, [InteractionReply ''This bot is locked to one server. Not this one.''])
          else
            (case refund_customId (i_customId i) of
               None \<Rightarrow> (s, [])
             | Some (action, rid) \<Rightarrow>
                 if i_user i \<noteq> REFUND_APPROVER_USER_ID then
                   (s, [InteractionReply ''You are not allowed to approve/reject refunds.''])
                 else
                   (case findOne (\<lambda>r. rr_requestId r = rid \<and> rr_guildId r = g) (refundRequestsCol s) of
                      None \<Rightarrow> (s, [InteractionReply ''Refund request not found.''])
                    | Some reqDoc \<Rightarrow>
                        if rr_status reqDoc \<noteq> ''pending'' then
                          (s, [InteractionReply (''Request already `'' @ rr_status reqDoc @ ''`.'')])
                        else if action = ''refund_reject'' then
                          (update_request rid (request_rejected (now e) (i_user i)) s,
                           [InteractionUpdate ''rejected''])
                        else approve_refund e i g rid reqDoc s)))"

text \<open>The same handler in the entitlement revision.\<close>

definition approve_refund_ent ::
  "env \<Rightarrow> interaction \<Rightarrow> string \<Rightarrow> purchase \<Rightarrow> store \<Rightarrow> store \<times> effect list" where
  "approve_refund_ent e i rid p s =
     (case paidAt p of
        None \<Rightarrow> (s, [InteractionDefer, InteractionUpdate ''No paidAt. Unsafe to refund.''])
      | Some t0 \<Rightarrow>
          if REFUND_WINDOW_MS < now e - t0 then
            (s, [InteractionDefer, InteractionUpdate ''Refund window expired (>24h).''])
          else
            (case executeRefundInternal e p of
               (Inl x, effs) \<Rightarrow>
                 (s, InteractionDefer # effs @ [InteractionUpdate ''Refund failed in Stripe.''])
             | (Inr refundId, effs) \<Rightarrow>
                 (let s1 = update_request rid
                             (\<lambda>r. r\<lparr>rr_status := ''approved'', rr_approvedAt := Some (now e),
                                    rr_approvedBy := Some (i_user i),
                                    rr_stripeRefundId := refundId\<rparr>) s;
                      s2 = s1\<lparr>purchasesCol :=
                                updateOne (\<lambda>q. purchaseId q = purchaseId p)
                                  (purchase_refunded (now e) refundId) (purchasesCol s1)\<rparr>;
                      s3 = (case or_null (productId p) of
                              None \<Rightarrow> s2
                            | Some prid \<Rightarrow>
                                s2\<lparr>entitlementsCol :=
                                     updateOne
                                       (\<lambda>en. ent_guildId en = guildId p \<and> ent_userId en = userId p
                                              \<and> ent_productId en = prid)
                                       (\<lambda>en. en\<lparr>ent_status := ''revoked'',
                                                 ent_revokedAt := Some (now e),
                                                 ent_revokedBy := Some (i_user i)\<rparr>)
                                       (entitlementsCol s2)\<rparr>)
                  in (s3, InteractionDefer # effs @ [InteractionUpdate ''Refund approved.'']))))"

definition refund_button_ent :: "env \<Rightarrow> interaction \<Rightarrow> store \<Rightarrow> store \<times> effect list" where
  "refund_button_ent e i s =
     (case i_guild i of
        None \<Rightarrow> (s, [InteractionReply ''Bot is locked to one server. Not this one.''])
      | Some g \<Rightarrow>
          if g \<noteq> ALLOWED_GUILD_ID then
            (s, [InteractionReply ''Bot is locked to one server. Not this one.''])
          else
            (case refund_customId (i_customId i) of
               None \<Rightarrow> (s, [])
             | Some (action, rid) \<Rightarrow>
                 if \<not> (i_user i = REFUND_APPROVER_USER_ID \<or> i_admin i) then
                   (s, [InteractionReply ''Not allowed.''])
                 else
                   (case findOne (\<lambda>r. rr_requestId r = rid \<and> rr_guildId r = g) (refundRequestsCol s) of
                      None \<Rightarrow> (s, [InteractionDefer, InteractionUpdate ''Refund request not found.''])
                    | Some rr \<Rightarrow>
                        if rr_status rr \<noteq> ''pending'' then
                          (s, [InteractionDefer,
                               InteractionUpdate (''Refund request is already `'' @ rr_status rr @ ''`.'')])
                        else
                          (case findOne (\<lambda>p. purchaseId p = rr_purchaseId rr \<and> guildId p = g)
                                  (purchasesCol s) of
                             None \<Rightarrow>
                               (update_request rid
                                  (\<lambda>r. (request_rejected (now e) (i_user i) r)
                                          \<lparr>rr_reason := Some ''Purchase missing''\<rparr>) s,
                                [InteractionDefer, InteractionUpdate ''Purchase missing. Request rejected.''])
                           | Some p \<Rightarrow>
                               if action = ''refund_reject'' then
                                 (update_request rid (request_rejected (now e) (i_user i)) s,
                                  [InteractionDefer, InteractionUpdate ''Refund rejected.''])
                               else approve_refund_ent e i rid p s))))"

section \<open>Observations\<close>

text \<open>The store after one delivery of a webhook request, in either revision.\<close>

definition deliver :: "env \<Rightarrow> string \<Rightarrow> string option \<Rightarrow> store \<Rightarrow> store" where
  "deliver e body sg s = fst (snd (stripe_webhook e body sg s))"

definition deliver_ent :: "env \<Rightarrow> string \<Rightarrow> string option \<Rightarrow> store \<Rightarrow> store" where
  "deliver_ent e body sg s = fst (snd (stripe_webhook_ent e body sg s))"

text \<open>Exactly one purchase carries the purchase id and the session id, and it is paid.\<close>

definition one_paid_row :: "string \<Rightarrow> string \<Rightarrow> purchase list \<Rightarrow> bool" where
  "one_paid_row pid sid col =
     (case filter (\<lambda>p. purchaseId p = pid \<and> stripeSessionId p = Some sid) col of
        [p] \<Rightarrow> status p = ''paid''
      | other \<Rightarrow> False)"

text \<open>A purchase whose subscription has been marked as ended at time \<open>t\<close>.\<close>

definition ended_row :: "int \<Rightarrow> purchase \<Rightarrow> purchase" where
  "ended_row t p = p\<lparr>subscriptionStatus := Some ''canceled'', subscriptionEndedAt := Some t\<rparr>"

text \<open>Role grants and removals, and the calls that reach the payment processor.\<close>

fun is_role_grant :: "effect \<Rightarrow> bool" where
  "is_role_grant (RolesAdd g u r) = True"
| "is_role_grant other = False"

fun is_role_removal :: "effect \<Rightarrow> bool" where
  "is_role_removal (RolesRemove g u r) = True"
| "is_role_removal other = False"

fun is_stripe_call :: "effect \<Rightarrow> bool" where
  "is_stripe_call (StripeRefundsCreate pint) = True"
| "is_stripe_call (StripeSubscriptionsCancel sid) = True"
| "is_stripe_call (StripeSubscriptionsRetrieve sid) = True"
| "is_stripe_call other = False"

fun is_refund_create :: "effect \<Rightarrow> bool" where
  "is_refund_create (StripeRefundsCreate pint) = True"
| "is_refund_create other = False"

fun is_cancel :: "effect \<Rightarrow> bool" where
  "is_cancel (StripeSubscriptionsCancel sid) = True"
| "is_cancel other = False"

text \<open>
  The error with which the payment processor rejects a call that \<open>executeRefundInternal\<close>
  issues, \<open>None\<close> when the call resolves.
\<close>

fun call_error :: "env \<Rightarrow> effect \<Rightarrow> exn option" where
  "call_error e (StripeRefundsCreate pint) =
     (case refunds_create e pint of Inl x \<Rightarrow> Some x | Inr rid \<Rightarrow> None)"
| "call_error e (StripeSubscriptionsRetrieve sid) =
     (case subscriptions_retrieve_expanded e sid of Inl x \<Rightarrow> Some x | Inr latest \<Rightarrow> None)"
| "call_error e (StripeSubscriptionsCancel sid) =
     (case subscriptions_cancel e sid of Inl x \<Rightarrow> Some x | Inr done \<Rightarrow> None)"
| "call_error e other = None"

section \<open>Example data\<close>

definition example_purchase :: purchase where
  "example_purchase =
     \<lparr>purchaseId = ''VT-1'', guildId = ALLOWED_GUILD_ID, userId = ''42'', ptype = ''product'',
      productId = Some ''p1'', productName = Some ''Tweaks'', planKey = Some ''monthly'',
      roleId = Some ''7'', p_amountMinor = 499, currency = CURRENCY, referenceCode = None,
      stripeSessionId = Some ''cs_1'', status = ''created'',
      createdAt = Some 0, paidAt = None,
      stripePaymentIntentId = None, stripeSubscriptionId = None, currentPeriodEnd = None,
      subscriptionStatus = None, cancelAtPeriodEnd = None, refundedAt = None,
      stripeRefundId = None, subscriptionUpdatedAt = None, subscriptionEndedAt = None\<rparr>"

text \<open>
  The session that \<open>createCheckoutSessionForProduct\<close> opened for that purchase, as Stripe
  reports it once the monthly subscription \<open>sub_1\<close> has been paid.
\<close>

definition example_product :: product where
  "example_product =
     \<lparr>prod_id = ''p1'', prod_guildId = ALLOWED_GUILD_ID, prod_name = ''Tweaks'',
      prod_description = ''Performance tweaks'', prod_roleId = ''7'',
      prod_prices = Some [''monthly'' \<mapsto> \<lparr>amountMinor = Some 499\<rparr>],
      prod_createdAt = Some 0\<rparr>"

definition example_session :: session where
  "example_session =
     \<lparr>sess_id = ''cs_1'',
      metadata = Some (product_metadata ''VT-1'' ALLOWED_GUILD_ID ''42'' example_product ''monthly'' 499),
      payment_intent = None, subscription = Some ''sub_1''\<rparr>"

definition donation_session :: session where
  "donation_session =
     \<lparr>sess_id = ''cs_9'',
      metadata = Some (donation_metadata ''VT-9'' ALLOWED_GUILD_ID ''42'' 500),
      payment_intent = Some ''pi_9'', subscription = None\<rparr>"

definition example_sub :: stripe_sub where
  "example_sub =
     \<lparr>sub_id = ''sub_1'', sub_status = ''active'', cancel_at_period_end = Some False,
      current_period_end = Some 2000\<rparr>"

text \<open>
  Collaborators that accept one signature and verify it as the given event, know the
  subscription \<open>sub_1\<close>, refuse every refund, and reach every guild member and channel.
\<close>

definition example_env :: "event \<Rightarrow> env" where
  "example_env ev =
     \<lparr>now = 5000,
      constructEvent = (\<lambda>body sg. if sg = Some ''t=1,v1=ok'' then Inr ev
                                   else Inl ''No signatures found matching the expected signature''),
      subscriptions_retrieve = (\<lambda>sid. if sid = ''sub_1'' then Some example_sub else None),
      subscriptions_retrieve_expanded =
        (\<lambda>sid. Inl (Exn ''No such subscription'' ''Error: No such subscription'')),
      refunds_create = (\<lambda>pint. Inl (Exn ''Charge already refunded'' ''Error: Charge already refunded'')),
      subscriptions_cancel = (\<lambda>sid. Inr ()),
      guilds_fetch = (\<lambda>g. g = ALLOWED_GUILD_ID),
      members_fetch = (\<lambda>g u. True),
      users_fetch = (\<lambda>u. True),
      channels_fetch_text = (\<lambda>c. True),
      channels_cached_purchase_log = Some ''900'',
      channels_create = None,
      to_number = dec_value\<rparr>"

text \<open>The same collaborators while Stripe cannot be reached for subscriptions.\<close>

definition offline_env :: "event \<Rightarrow> env" where
  "offline_env ev = (example_env ev)\<lparr>subscriptions_retrieve := (\<lambda>sid. None)\<rparr>"

definition example_store :: store where
  "example_store =
     \<lparr>productsCol = [], configCol = [], purchasesCol = [example_purchase],
      refundRequestsCol = [], ticketsCol = [], entitlementsCol = [],
      configCache = Map.empty\<rparr>"

text \<open>A paid purchase, a pending and a rejected refund request for it.\<close>

definition paid_purchase :: purchase where
  "paid_purchase =
     example_purchase\<lparr>status := ''paid'', paidAt := Some 1000, stripePaymentIntentId := Some ''pi_1''\<rparr>"

definition pending_request :: refund_request where
  "pending_request =
     \<lparr>rr_requestId = ''RR-1'', rr_purchaseId = ''VT-1'', rr_guildId = ALLOWED_GUILD_ID,
      rr_requestedBy = ''1'', rr_status = ''pending'', rr_createdAt = Some 2000,
      rr_approvedAt = None, rr_approvedBy = None, rr_rejectedAt = None, rr_rejectedBy = None,
      rr_executedAt = None, rr_failedAt = None, rr_failureReason = None, rr_reason = None,
      rr_stripeRefundId = None\<rparr>"

definition refund_store :: "refund_request \<Rightarrow> store" where
  "refund_store r = example_store\<lparr>purchasesCol := [paid_purchase], refundRequestsCol := [r]\<rparr>"

definition approve_click :: interaction where
  "approve_click =
     \<lparr>i_guild = Some ALLOWED_GUILD_ID, i_user = REFUND_APPROVER_USER_ID, i_admin = False,
      i_customId = ''refund_approve:RR-1''\<rparr>"

text \<open>The purchase once the monthly subscription \<open>sub_1\<close> has been paid.\<close>

definition subscribed_purchase :: purchase where
  "subscribed_purchase =
     example_purchase\<lparr>status := ''paid'', paidAt := Some 1000,
       stripeSubscriptionId := Some ''sub_1'', subscriptionStatus := Some ''active''\<rparr>"

text \<open>
  A refund request for it, approved in two situations. In the first Stripe refunds the
  payment intent \<open>pi_7\<close> of the latest invoice and then rejects the cancellation of the
  subscription. In the second Stripe reports no payment intent on the latest invoice.
\<close>

definition cancel_rejected_env :: env where
  "cancel_rejected_env =
     (example_env (OtherEvent ''ping''))
       \<lparr>subscriptions_retrieve_expanded := (\<lambda>sid. Inr (Some ''pi_7'')),
        refunds_create := (\<lambda>pint. Inr ''re_1''),
        subscriptions_cancel :=
          (\<lambda>sid. Inl (Exn ''An error occurred with our connection to Stripe.''
                           ''Error: An error occurred with our connection to Stripe.''))\<rparr>"

definition no_invoice_env :: env where
  "no_invoice_env =
     (example_env (OtherEvent ''ping''))\<lparr>subscriptions_retrieve_expanded := (\<lambda>sid. Inr None)\<rparr>"

definition subscription_refund_store :: store where
  "subscription_refund_store =
     example_store\<lparr>purchasesCol := [subscribed_purchase], refundRequestsCol := [pending_request]\<rparr>"

text \<open>Purchases on other subscriptions, one refunded and one paid.\<close>

definition refunded_purchase :: purchase where
  "refunded_purchase =
     subscribed_purchase\<lparr>purchaseId := ''VT-2'', stripeSessionId := Some ''cs_2'',
       userId := ''44'', stripeSubscriptionId := Some ''sub_3'',
       status := ''refunded'', refundedAt := Some 3000\<rparr>"

definition unrelated_purchase :: purchase where
  "unrelated_purchase =
     subscribed_purchase\<lparr>purchaseId := ''VT-3'', stripeSessionId := Some ''cs_3'',
       userId := ''43'', stripeSubscriptionId := Some ''sub_2''\<rparr>"

definition subscription_store :: store where
  "subscription_store =
     example_store\<lparr>purchasesCol := [subscribed_purchase, refunded_purchase, unrelated_purchase]\<rparr>"

text \<open>
  The subscription \<open>sub_1\<close> has ended. In the first case the buyer has left the guild.
  In the second the guild has no purchase log channel and the bot may not create one.
\<close>

definition departed_env :: env where
  "departed_env = (example_env (SubscriptionDeleted example_sub))\<lparr>members_fetch := (\<lambda>g u. False)\<rparr>"

definition no_log_env :: env where
  "no_log_env = (example_env (SubscriptionDeleted example_sub))\<lparr>channels_cached_purchase_log := None\<rparr>"

text \<open>An entitlement for the lifetime plan.\<close>

definition lifetime_entitlement :: entitlement where
  "lifetime_entitlement =
     \<lparr>ent_guildId = ALLOWED_GUILD_ID, ent_userId = ''42'', ent_productId = ''p1'',
      ent_status = ''active'', ent_planKey = ''lifetime'', ent_referenceCode = None,
      ent_lastPurchaseId = Some ''VT-1'', ent_stripeSubscriptionId = None,
      ent_currentPeriodEnd = None, ent_subscriptionStatus = None, ent_createdAt = Some 0,
      ent_updatedAt = Some 0, ent_revokedAt = None, ent_revokedBy = None\<rparr>"

section \<open>Properties\<close>

subsection \<open>Enabled plans\<close>

lemma enabledPlans_loop_filter:
  "enabledPlans_loop pricesObj keys out =
     out @ filter (\<lambda>key. truthy_amount (plan_amount pricesObj key)) keys"
  by (induction keys arbitrary: out) simp_all

text \<open>
  C9. \<open>enabledPlans\<close> walks the canonical order \<open>one_time, monthly, annual, lifetime\<close> and
  keeps exactly the plan keys whose minor-unit amount is a positive integer: the result is
  the canonical list filtered by that test, so a key is in the result if and only if it is a
  canonical key with a positive amount, and the result never repeats or reorders keys.
\<close>

theorem enabledPlans_canonical_order:
  "enabledPlans pricesObj =
     filter (\<lambda>key. case plan_amount pricesObj key of None \<Rightarrow> False | Some n \<Rightarrow> 0 < n)
       [''one_time'', ''monthly'', ''annual'', ''lifetime'']"
proof -
  have "truthy_amount a = (case a of None \<Rightarrow> False | Some n \<Rightarrow> 0 < n)" for a
    by (cases a) (simp_all add: truthy_amount_def)
  then show ?thesis
    by (simp add: enabledPlans_def enabledPlans_loop_filter PLAN_KEYS_def)
qed

theorem enabledPlans_canonical_order_witness:
  "enabledPlans (Some [''lifetime'' \<mapsto> \<lparr>amountMinor = Some 19999\<rparr>,
                       ''one_time'' \<mapsto> \<lparr>amountMinor = Some 0\<rparr>,
                       ''monthly'' \<mapsto> \<lparr>amountMinor = Some 499\<rparr>])
     = [''monthly'', ''lifetime'']"
  using enabledPlans_canonical_order
          [of "Some [''lifetime'' \<mapsto> \<lparr>amountMinor = Some 19999\<rparr>,
                     ''one_time'' \<mapsto> \<lparr>amountMinor = Some 0\<rparr>,
                     ''monthly'' \<mapsto> \<lparr>amountMinor = Some 499\<rparr>]"]
  by (simp add: plan_amount_def)

subsection \<open>The checkout gate\<close>

text \<open>
  C6. A user who holds an \<open>active\<close> entitlement with plan \<open>lifetime\<close> for a product is
  denied by \<open>canStartCheckout\<close> for every target plan key and for both values of the
  \<open>isUpgrade\<close> flag.
\<close>

theorem canStartCheckout_lifetime_denied:
  assumes "getEntitlement ents g u pr = Some ent"
    and "ent_status ent = ''active''"
    and "ent_planKey ent = ''lifetime''"
  shows "canStartCheckout ents g u pr target isUpgrade =
           \<lparr>ok = False, reason = Some ''You already own **Lifetime** for this product.''\<rparr>"
  using assms by (simp add: canStartCheckout_def)

theorem canStartCheckout_lifetime_denied_witness:
  "getEntitlement [lifetime_entitlement] ALLOWED_GUILD_ID ''42'' ''p1'' = Some lifetime_entitlement
   \<and> ent_status lifetime_entitlement = ''active''
   \<and> ent_planKey lifetime_entitlement = ''lifetime''
   \<and> canStartCheckout [lifetime_entitlement] ALLOWED_GUILD_ID ''42'' ''p1'' ''monthly'' True =
       \<lparr>ok = False, reason = Some ''You already own **Lifetime** for this product.''\<rparr>"
proof -
  have h1: "getEntitlement [lifetime_entitlement] ALLOWED_GUILD_ID ''42'' ''p1''
              = Some lifetime_entitlement"
    by (simp add: getEntitlement_def findOne_def lifetime_entitlement_def)
  have h2: "ent_status lifetime_entitlement = ''active''"
    and h3: "ent_planKey lifetime_entitlement = ''lifetime''"
    by (simp_all add: lifetime_entitlement_def)
  show ?thesis
    using canStartCheckout_lifetime_denied[OF h1 h2 h3, of "''monthly''" True] h1 h2 h3 by simp
qed

subsection \<open>Collections\<close>

lemma updateOne_keys:
  "(\<And>d. key (upd d) = key d) \<Longrightarrow> map key (updateOne flt upd col) = map key col"
  by (induction col) simp_all

lemma findOne_updateOne_same:
  assumes "findOne flt col = Some d" and "flt (upd d)"
  shows "findOne flt (updateOne flt upd col) = Some (upd d)"
  using assms by (induction col) (auto simp: findOne_def split: if_splits)

text \<open>Under a unique index on \<open>key\<close>, a filter that fixes the key matches one document.\<close>

lemma filter_unique_key:
  assumes "distinct (map key col)"
    and "\<And>x. flt x \<Longrightarrow> key x = k"
    and "findOne flt col = Some d"
  shows "filter flt col = [d]"
  using assms(1,3)
proof (induction col)
  case Nil
  then show ?case by (simp add: findOne_def)
next
  case (Cons a col)
  show ?case
  proof (cases "flt a")
    case True
    then have ad: "a = d" using Cons.prems(2) by (simp add: findOne_def)
    have "filter flt col = []"
    proof -
      have "\<not> flt x" if "x \<in> set col" for x
      proof
        assume "flt x"
        then have "key x = key a" using assms(2) True by simp
        then show False using Cons.prems(1) that
          by (metis distinct.simps(2) image_eqI list.simps(9) set_map)
      qed
      then show ?thesis by (simp add: filter_empty_conv)
    qed
    then show ?thesis using True ad by simp
  next
    case False
    then show ?thesis using Cons by (simp add: findOne_def)
  qed
qed

text \<open>Under a unique index on \<open>key\<close>, an update by key reaches the document a finer filter
  found.\<close>

lemma updateOne_find_distinct:
  assumes "distinct (map key col)"
    and "findOne flt col = Some d"
    and "flt (upd d)"
  shows "findOne flt (updateOne (\<lambda>r. key r = key d) upd col) = Some (upd d)"
  using assms
proof (induction col)
  case Nil
  then show ?case by (simp add: findOne_def)
next
  case (Cons a col)
  show ?case
  proof (cases "flt a")
    case True
    then have "a = d" using Cons.prems(2) by (simp add: findOne_def)
    then show ?thesis using Cons.prems(3) by (simp add: findOne_def)
  next
    case False
    then have f: "findOne flt col = Some d" using Cons.prems(2) by (simp add: findOne_def)
    then have "d \<in> set col" by (auto simp: findOne_def find_Some_iff)
    then have "key a \<noteq> key d" using Cons.prems(1) by auto
    moreover have "findOne flt (updateOne (\<lambda>r. key r = key d) upd col) = Some (upd d)"
      using Cons.IH Cons.prems(1) f Cons.prems(3) by simp
    ultimately show ?thesis using False by (simp add: findOne_def)
  qed
qed

subsection \<open>What the log channel helpers leave alone\<close>

lemma logToPurchaseLog_frame:
  "logToPurchaseLog e g t s = (b, s', effs) \<Longrightarrow>
     purchasesCol s' = purchasesCol s \<and> entitlementsCol s' = entitlementsCol s
     \<and> refundRequestsCol s' = refundRequestsCol s"
  by (auto simp: logToPurchaseLog_def ensurePurchaseLogChannel_def upsertConfig_def Let_def
      split: option.splits if_splits prod.splits)

lemma logToPurchaseLog_cached_frame:
  "logToPurchaseLog_cached e g t s = (b, s', effs) \<Longrightarrow>
     purchasesCol s' = purchasesCol s \<and> entitlementsCol s' = entitlementsCol s
     \<and> refundRequestsCol s' = refundRequestsCol s"
  by (auto simp: logToPurchaseLog_cached_def ensurePurchaseLogChannel_cached_def
      upsertConfig_cached_def getConfig_cached_def upsertConfig_def Let_def
      split: option.splits if_splits prod.splits)

lemma logToPurchaseLog_no_grant:
  "logToPurchaseLog e g t s = (b, s', effs) \<Longrightarrow> filter is_role_grant effs = []"
  by (auto simp: logToPurchaseLog_def ensurePurchaseLogChannel_def Let_def
      split: option.splits if_splits prod.splits)

lemma logToPurchaseLog_cached_no_grant:
  "logToPurchaseLog_cached e g t s = (b, s', effs) \<Longrightarrow> filter is_role_grant effs = []"
  by (auto simp: logToPurchaseLog_cached_def ensurePurchaseLogChannel_cached_def Let_def
      split: option.splits if_splits prod.splits)

lemma resolve_subscription_no_grant:
  "filter is_role_grant (snd (resolve_subscription e subid)) = []"
  by (auto simp: resolve_subscription_def split: option.splits)

lemma sendThanks_no_grant: "filter is_role_grant (sendThanksIfConfigured e g s) = []"
  by (auto simp: sendThanksIfConfigured_def split: option.splits)

lemma upgrade_hint_no_grant: "filter is_role_grant (upgrade_hint e g u pr pl s) = []"
  by (auto simp: upgrade_hint_def split: option.splits)

subsection \<open>Signature verification\<close>

text \<open>
  C2. When the signature of an inbound webhook request does not validate, that is when
  \<open>constructEvent\<close> throws, the handler answers with HTTP status 400, leaves the whole
  store as it was (purchases, entitlements, refund requests, tickets, configuration) and
  has made no call on any collaborator: nothing is processed before verification.
\<close>

theorem webhook_bad_signature:
  assumes "constructEvent e body sg = Inl msg"
  shows "stripe_webhook e body sg s = (Send 400 (''Webhook Error: '' @ msg), s, [])
       \<and> http_status (fst (stripe_webhook e body sg s)) = 400
       \<and> stripe_webhook_ent e body sg s = (Send 400 (''Webhook Error: '' @ msg), s, [])
       \<and> http_status (fst (stripe_webhook_ent e body sg s)) = 400"
  using assms by (simp add: stripe_webhook_def stripe_webhook_ent_def)

theorem webhook_bad_signature_witness:
  "constructEvent (example_env (CheckoutSessionCompleted example_session)) ''{}'' (Some ''t=1,v1=bad'')
     = Inl ''No signatures found matching the expected signature''
   \<and> stripe_webhook (example_env (CheckoutSessionCompleted example_session)) ''{}''
        (Some ''t=1,v1=bad'') example_store
     = (Send 400 ''Webhook Error: No signatures found matching the expected signature'',
        example_store, [])"
proof -
  have h: "constructEvent (example_env (CheckoutSessionCompleted example_session)) ''{}''
             (Some ''t=1,v1=bad'') = Inl ''No signatures found matching the expected signature''"
    by (simp add: example_env_def)
  show ?thesis
    using webhook_bad_signature[OF h, of example_store] h by simp
qed

subsection \<open>Donations\<close>

lemma grant_role_donation: "grant_role e sess g u ''donation'' = []"
  by (simp add: grant_role_def split: option.splits)

lemma entitlement_step_donation:
  "entitlement_step e sess pid g u ''donation'' subid side s = (s, [])"
  by (simp add: entitlement_step_def split: option.splits)

lemma after_paid_donation:
  "after_paid e sess g u ''donation'' s effs = (r, s', effs') \<Longrightarrow>
     entitlementsCol s' = entitlementsCol s \<and> filter is_role_grant effs' = filter is_role_grant effs"
  by (auto simp: after_paid_def grant_role_donation Let_def
      dest: logToPurchaseLog_frame logToPurchaseLog_no_grant
      split: if_splits prod.splits bool.splits)

lemma after_paid_ent_donation:
  "after_paid_ent e sess pid g u ''donation'' subid side s effs = (r, s', effs') \<Longrightarrow>
     entitlementsCol s' = entitlementsCol s \<and> filter is_role_grant effs' = filter is_role_grant effs"
  by (auto simp: after_paid_ent_def grant_role_donation entitlement_step_donation Let_def
      dest: logToPurchaseLog_cached_frame logToPurchaseLog_cached_no_grant
      split: if_splits prod.splits bool.splits)

lemma checkout_completed_donation:
  assumes "meta_of sess ''type'' = Some ''donation''"
    and "checkout_completed e sess s = (r, s', effs)"
  shows "entitlementsCol s' = entitlementsCol s \<and> filter is_role_grant effs = []"
proof -
  have ty: "or_null (meta_of sess ''type'') = Some ''donation''"
    using assms(1) by (simp add: or_null_def truthy_def)
  show ?thesis
    using assms(2) resolve_subscription_no_grant[of e "or_null (subscription sess)"]
    unfolding checkout_completed_def ty
    by (auto simp: Let_def split: option.splits if_splits prod.splits
        dest!: after_paid_donation)
qed

lemma checkout_completed_ent_donation:
  assumes "meta_of sess ''type'' = Some ''donation''"
    and "checkout_completed_ent e sess s = (r, s', effs)"
  shows "entitlementsCol s' = entitlementsCol s \<and> filter is_role_grant effs = []"
proof -
  have ty: "or_null (meta_of sess ''type'') = Some ''donation''"
    using assms(1) by (simp add: or_null_def truthy_def)
  show ?thesis
    using assms(2) resolve_subscription_no_grant[of e "or_null (subscription sess)"]
    unfolding checkout_completed_ent_def ty
    by (auto simp: Let_def split: option.splits if_splits prod.splits
        dest!: after_paid_ent_donation)
qed

text \<open>
  C10. The metadata of a donation checkout session has type \<open>donation\<close> and neither
  \<open>role_id\<close> nor \<open>product_id\<close>. For every verified \<open>checkout.session.completed\<close> event whose
  metadata type is \<open>donation\<close>, whatever else the metadata holds, the handler issues no role
  grant and leaves the entitlements as they were, in both revisions: the two side effects
  are gated on the type being \<open>product\<close>.
\<close>

theorem donation_no_role_no_entitlement:
  assumes "constructEvent e body sg = Inr (CheckoutSessionCompleted sess)"
    and "meta_of sess ''type'' = Some ''donation''"
  shows "donation_metadata pid gid uid amount ''type'' = Some ''donation''
       \<and> donation_metadata pid gid uid amount ''role_id'' = None
       \<and> donation_metadata pid gid uid amount ''product_id'' = None
       \<and> entitlementsCol (fst (snd (stripe_webhook e body sg s))) = entitlementsCol s
       \<and> filter is_role_grant (snd (snd (stripe_webhook e body sg s))) = []
       \<and> entitlementsCol (fst (snd (stripe_webhook_ent e body sg s))) = entitlementsCol s
       \<and> filter is_role_grant (snd (snd (stripe_webhook_ent e body sg s))) = []"
proof -
  obtain r s' effs where a: "checkout_completed e sess s = (r, s', effs)"
    by (cases "checkout_completed e sess s") auto
  obtain r2 s2 effs2 where b: "checkout_completed_ent e sess s = (r2, s2, effs2)"
    by (cases "checkout_completed_ent e sess s") auto
  show ?thesis
    using checkout_completed_donation[OF assms(2) a] checkout_completed_ent_donation[OF assms(2) b]
    by (simp add: stripe_webhook_def stripe_webhook_ent_def assms(1) a b donation_metadata_def)
qed

theorem donation_no_role_no_entitlement_witness:
  "constructEvent (example_env (CheckoutSessionCompleted donation_session)) ''{}'' (Some ''t=1,v1=ok'')
     = Inr (CheckoutSessionCompleted donation_session)
   \<and> meta_of donation_session ''type'' = Some ''donation''
   \<and> entitlementsCol (fst (snd (stripe_webhook_ent (example_env (CheckoutSessionCompleted donation_session))
         ''{}'' (Some ''t=1,v1=ok'') example_store))) = entitlementsCol example_store
   \<and> filter is_role_grant (snd (snd (stripe_webhook (example_env (CheckoutSessionCompleted donation_session))
         ''{}'' (Some ''t=1,v1=ok'') example_store))) = []"
proof -
  have h1: "constructEvent (example_env (CheckoutSessionCompleted donation_session)) ''{}''
              (Some ''t=1,v1=ok'') = Inr (CheckoutSessionCompleted donation_session)"
    by (simp add: example_env_def)
  have h2: "meta_of donation_session ''type'' = Some ''donation''"
    by (simp add: meta_of_def donation_session_def donation_metadata_def)
  show ?thesis
    using donation_no_role_no_entitlement[OF h1 h2, of "''VT-9''" ALLOWED_GUILD_ID "''42''" 500 example_store]
      h1 h2 by simp
qed

subsection \<open>Replay of a paid event\<close>

lemma after_paid_purchases:
  "purchasesCol (fst (snd (after_paid e sess g u ty s effs))) = purchasesCol s"
  by (auto simp: after_paid_def Let_def split: prod.splits bool.splits
      dest: logToPurchaseLog_frame)

lemma entitlement_step_purchases:
  "purchasesCol (fst (entitlement_step e sess pid g u ty subid side s)) = purchasesCol s"
  by (simp add: entitlement_step_def Let_def split: option.splits)

lemma after_paid_ent_purchases:
  "purchasesCol (fst (snd (after_paid_ent e sess pid g u ty subid side s effs))) = purchasesCol s"
proof -
  obtain s1 effs2 where st: "entitlement_step e sess pid g u ty subid side s = (s1, effs2)"
    by (cases "entitlement_step e sess pid g u ty subid side s") auto
  then have "purchasesCol s1 = purchasesCol s"
    using entitlement_step_purchases[of e sess pid g u ty subid side s] by simp
  then show ?thesis
    by (auto simp: after_paid_ent_def Let_def st split: prod.splits bool.splits
        dest: logToPurchaseLog_cached_frame)
qed

lemma set_paid_keeps:
  "purchaseId (set_paid t a b side p) = purchaseId p"
  "stripeSessionId (set_paid t a b side p) = stripeSessionId p"
  "status (set_paid t a b side p) = ''paid''"
  by (cases side; simp add: set_paid_def)+

text \<open>One update of the matching purchase keeps the unique index and the match.\<close>

lemma delivery_step:
  assumes d: "distinct (map purchaseId col)"
    and f: "findOne (\<lambda>p. purchaseId p = pid \<and> stripeSessionId p = Some sid) col = Some p0"
    and k: "\<And>p. purchaseId (setp p) = purchaseId p \<and> stripeSessionId (setp p) = stripeSessionId p"
  shows "distinct (map purchaseId (updateOne (\<lambda>p. purchaseId p = pid \<and> stripeSessionId p = Some sid) setp col))"
    and "findOne (\<lambda>p. purchaseId p = pid \<and> stripeSessionId p = Some sid)
           (updateOne (\<lambda>p. purchaseId p = pid \<and> stripeSessionId p = Some sid) setp col) = Some (setp p0)"
proof -
  show "distinct (map purchaseId (updateOne (\<lambda>p. purchaseId p = pid \<and> stripeSessionId p = Some sid) setp col))"
    using d k by (simp add: updateOne_keys)
  have "purchaseId p0 = pid \<and> stripeSessionId p0 = Some sid"
    using f by (auto simp: findOne_def find_Some_iff)
  then show "findOne (\<lambda>p. purchaseId p = pid \<and> stripeSessionId p = Some sid)
           (updateOne (\<lambda>p. purchaseId p = pid \<and> stripeSessionId p = Some sid) setp col) = Some (setp p0)"
    using findOne_updateOne_same[OF f, of setp] k by simp
qed

lemma one_paid_rowI:
  assumes "distinct (map purchaseId col)"
    and "findOne (\<lambda>p. purchaseId p = pid \<and> stripeSessionId p = Some sid) col = Some p"
    and "status p = ''paid''"
  shows "one_paid_row pid sid col"
proof -
  have "filter (\<lambda>p. purchaseId p = pid \<and> stripeSessionId p = Some sid) col = [p]"
    by (rule filter_unique_key[where key = purchaseId and k = pid, OF assms(1) _ assms(2)]) simp
  then show ?thesis by (simp add: one_paid_row_def assms(3))
qed

text \<open>What one delivery of an event that passes the metadata gate does to the purchases,
  when the store holds the matching purchase.\<close>

lemma checkout_completed_purchases:
  assumes "meta_of sess ''purchase_id'' = Some pid" "pid \<noteq> []"
    and "meta_of sess ''guild_id'' = Some ALLOWED_GUILD_ID"
    and "meta_of sess ''user_id'' = Some uid" "uid \<noteq> []"
    and "meta_of sess ''type'' = Some ty" "ty \<noteq> []"
    and "findOne (\<lambda>p. purchaseId p = pid \<and> stripeSessionId p = Some (sess_id sess)) (purchasesCol s) = Some p0"
  shows "purchasesCol (fst (snd (checkout_completed e sess s))) =
          (case fst (resolve_subscription e (or_null (subscription sess))) of
             None \<Rightarrow> purchasesCol s
           | Some side \<Rightarrow>
               updateOne (\<lambda>p. purchaseId p = pid \<and> stripeSessionId p = Some (sess_id sess))
                 (set_paid (now e) (or_null (payment_intent sess)) (or_null (subscription sess)) side)
                 (purchasesCol s))"
proof -
  have g: "or_null (meta_of sess ''purchase_id'') = Some pid"
      "or_null (meta_of sess ''guild_id'') = Some ALLOWED_GUILD_ID"
      "or_null (meta_of sess ''user_id'') = Some uid"
      "or_null (meta_of sess ''type'') = Some ty"
    using assms(1-7) by (simp_all add: or_null_def truthy_def ALLOWED_GUILD_ID_def)
  show ?thesis
    unfolding checkout_completed_def g
    by (cases "resolve_subscription e (or_null (subscription sess))")
       (simp add: Let_def paid_upsert_def assms(8) after_paid_purchases split: option.splits)
qed

lemma checkout_completed_ent_purchases:
  assumes "meta_of sess ''purchase_id'' = Some pid" "pid \<noteq> []"
    and "meta_of sess ''guild_id'' = Some ALLOWED_GUILD_ID"
    and "meta_of sess ''user_id'' = Some uid" "uid \<noteq> []"
    and "meta_of sess ''type'' = Some ty" "ty \<noteq> []"
    and "findOne (\<lambda>p. purchaseId p = pid \<and> stripeSessionId p = Some (sess_id sess)) (purchasesCol s) = Some p0"
  shows "purchasesCol (fst (snd (checkout_completed_ent e sess s))) =
          (case fst (resolve_subscription e (or_null (subscription sess))) of
             None \<Rightarrow> purchasesCol s
           | Some side \<Rightarrow>
               updateOne (\<lambda>p. purchaseId p = pid \<and> stripeSessionId p = Some (sess_id sess))
                 (\<lambda>p. (set_paid (now e) (or_null (payment_intent sess)) (or_null (subscription sess)) side p)
                        \<lparr>planKey := or_null (meta_of sess ''plan_key''),
                         productId := or_null (meta_of sess ''product_id'')\<rparr>)
                 (purchasesCol s))"
proof -
  have g: "or_null (meta_of sess ''purchase_id'') = Some pid"
      "or_null (meta_of sess ''guild_id'') = Some ALLOWED_GUILD_ID"
      "or_null (meta_of sess ''user_id'') = Some uid"
      "or_null (meta_of sess ''type'') = Some ty"
    using assms(1-7) by (simp_all add: or_null_def truthy_def ALLOWED_GUILD_ID_def)
  show ?thesis
    unfolding checkout_completed_ent_def g
    by (cases "resolve_subscription e (or_null (subscription sess))")
       (simp add: Let_def paid_upsert_ent_def assms(8) after_paid_ent_purchases split: option.splits)
qed

text \<open>
  Two deliveries in a row, each of which either fails before the update or updates the
  matching purchase to \<open>paid\<close>.
\<close>

lemma replay_steps:
  assumes uniq: "distinct (map purchaseId col)"
    and found: "findOne (\<lambda>p. purchaseId p = pid \<and> stripeSessionId p = Some sid) col = Some p0"
    and keeps: "\<And>side p. purchaseId (setp1 side p) = purchaseId p \<and> stripeSessionId (setp1 side p) = stripeSessionId p
                  \<and> status (setp1 side p) = ''paid''"
               "\<And>side p. purchaseId (setp2 side p) = purchaseId p \<and> stripeSessionId (setp2 side p) = stripeSessionId p
                  \<and> status (setp2 side p) = ''paid''"
    and step1: "col1 = (case r1 of None \<Rightarrow> col
                        | Some side \<Rightarrow> updateOne (\<lambda>p. purchaseId p = pid \<and> stripeSessionId p = Some sid) (setp1 side) col)"
    and step2: "\<And>p1. findOne (\<lambda>p. purchaseId p = pid \<and> stripeSessionId p = Some sid) col1 = Some p1 \<Longrightarrow>
                  col2 = (case r2 of None \<Rightarrow> col1
                          | Some side \<Rightarrow> updateOne (\<lambda>p. purchaseId p = pid \<and> stripeSessionId p = Some sid) (setp2 side) col1)"
    and some: "r1 \<noteq> None \<or> r2 \<noteq> None"
  shows "one_paid_row pid sid col2"
proof -
  let ?flt = "\<lambda>p. purchaseId p = pid \<and> stripeSessionId p = Some sid"
  obtain p1 where d1: "distinct (map purchaseId col1)" and f1: "findOne ?flt col1 = Some p1"
    and s1: "r1 \<noteq> None \<longrightarrow> status p1 = ''paid''"
  proof (cases r1)
    case None
    then show ?thesis using that[of p0] uniq found step1 by simp
  next
    case (Some side)
    have "distinct (map purchaseId col1)" "findOne ?flt col1 = Some (setp1 side p0)"
      unfolding step1 Some option.case
      by (rule delivery_step[OF uniq found]; simp add: keeps)+
    then show ?thesis using that[of "setp1 side p0"] keeps by simp
  qed
  note c2 = step2[OF f1]
  show ?thesis
  proof (cases r2)
    case None
    then have "col2 = col1" using c2 by simp
    moreover have "status p1 = ''paid''" using s1 some None by simp
    ultimately show ?thesis using one_paid_rowI[OF d1 f1] by simp
  next
    case (Some side)
    have "distinct (map purchaseId col2)" "findOne ?flt col2 = Some (setp2 side p1)"
      unfolding c2 Some option.case
      by (rule delivery_step[OF d1 f1]; simp add: keeps)+
    then show ?thesis using one_paid_rowI[of col2 pid sid "setp2 side p1"] keeps by simp
  qed
qed

text \<open>
  Every session the service opens carries its purchase id, the allowed guild, the buyer
  and the purchase type in its metadata, and the purchase is inserted with the id of that
  session: the event of a session that belongs to a purchase of the service passes the
  handler's test on the metadata.
\<close>

lemma created_metadata_gate:
  assumes "metadata sess = Some (product_metadata pid ALLOWED_GUILD_ID uid pr plan amount)
           \<or> metadata sess = Some (donation_metadata pid ALLOWED_GUILD_ID uid amount)"
  shows "meta_of sess ''purchase_id'' = Some pid"
    and "meta_of sess ''guild_id'' = Some ALLOWED_GUILD_ID"
    and "meta_of sess ''user_id'' = Some uid"
    and "meta_of sess ''type'' = Some ''product'' \<or> meta_of sess ''type'' = Some ''donation''"
  using assms by (auto simp: meta_of_def product_metadata_def donation_metadata_def)

text \<open>
  C1, as amended. Take a verified \<open>checkout.session.completed\<close> event whose purchase id
  and session id match a purchase in the store, the purchase ids being unique, and whose
  metadata is as the service writes it for every session (purchase id, buyer and type
  present, the guild the allowed one). The handler reads the subscription of the session
  from Stripe before it writes, and answers 500 without writing when that call fails. If
  in at least one of two deliveries of the event that call succeeds, which is always so for
  a session without subscription, then after the two deliveries, at whatever times and
  whatever else the collaborators answer, exactly one purchase has that purchase id and
  session id, and it is \<open>paid\<close>. This holds for the update with upsert fallback of
  \<open>index.js\<close> and for the single upsert of the entitlement revision.
\<close>

theorem paid_event_replay:
  assumes ev1: "constructEvent e1 body sg = Inr (CheckoutSessionCompleted sess)"
    and ev2: "constructEvent e2 body sg = Inr (CheckoutSessionCompleted sess)"
    and gate: "meta_of sess ''purchase_id'' = Some pid" "pid \<noteq> []"
      "meta_of sess ''guild_id'' = Some ALLOWED_GUILD_ID"
      "meta_of sess ''user_id'' = Some uid" "uid \<noteq> []"
      "meta_of sess ''type'' = Some ty" "ty \<noteq> []"
    and uniq: "distinct (map purchaseId (purchasesCol s))"
    and found: "findOne (\<lambda>p. purchaseId p = pid \<and> stripeSessionId p = Some (sess_id sess))
                  (purchasesCol s) = Some p0"
    and lookup: "fst (resolve_subscription e1 (or_null (subscription sess))) \<noteq> None
                 \<or> fst (resolve_subscription e2 (or_null (subscription sess))) \<noteq> None"
  shows "one_paid_row pid (sess_id sess) (purchasesCol (deliver e2 body sg (deliver e1 body sg s)))
       \<and> one_paid_row pid (sess_id sess)
           (purchasesCol (deliver_ent e2 body sg (deliver_ent e1 body sg s)))"
proof
  let ?s1 = "deliver e1 body sg s"
  show "one_paid_row pid (sess_id sess) (purchasesCol (deliver e2 body sg ?s1))"
  proof (rule replay_steps[OF uniq found _ _ _ _ lookup,
        where ?setp1.0 = "set_paid (now e1) (or_null (payment_intent sess)) (or_null (subscription sess))"
          and ?setp2.0 = "set_paid (now e2) (or_null (payment_intent sess)) (or_null (subscription sess))"
          and ?col1.0 = "purchasesCol ?s1"])
    show "purchasesCol ?s1 =
        (case fst (resolve_subscription e1 (or_null (subscription sess))) of
           None \<Rightarrow> purchasesCol s
         | Some side \<Rightarrow>
             updateOne (\<lambda>p. purchaseId p = pid \<and> stripeSessionId p = Some (sess_id sess))
               (set_paid (now e1) (or_null (payment_intent sess)) (or_null (subscription sess)) side)
               (purchasesCol s))"
      using checkout_completed_purchases[OF gate found, of e1]
      by (simp add: deliver_def stripe_webhook_def ev1)
    show "purchasesCol (deliver e2 body sg ?s1) =
        (case fst (resolve_subscription e2 (or_null (subscription sess))) of
           None \<Rightarrow> purchasesCol ?s1
         | Some side \<Rightarrow>
             updateOne (\<lambda>p. purchaseId p = pid \<and> stripeSessionId p = Some (sess_id sess))
               (set_paid (now e2) (or_null (payment_intent sess)) (or_null (subscription sess)) side)
               (purchasesCol ?s1))"
      if "findOne (\<lambda>p. purchaseId p = pid \<and> stripeSessionId p = Some (sess_id sess))
            (purchasesCol ?s1) = Some p1" for p1
      using checkout_completed_purchases[OF gate that, of e2]
      by (simp add: deliver_def[of e2] stripe_webhook_def ev2)
  qed (simp_all add: set_paid_keeps)
next
  let ?s1 = "deliver_ent e1 body sg s"
  let ?set = "\<lambda>e side p. (set_paid (now e) (or_null (payment_intent sess)) (or_null (subscription sess)) side p)
                      \<lparr>planKey := or_null (meta_of sess ''plan_key''),
                       productId := or_null (meta_of sess ''product_id'')\<rparr>"
  show "one_paid_row pid (sess_id sess) (purchasesCol (deliver_ent e2 body sg ?s1))"
  proof (rule replay_steps[OF uniq found _ _ _ _ lookup,
        where ?setp1.0 = "?set e1" and ?setp2.0 = "?set e2" and ?col1.0 = "purchasesCol ?s1"])
    show "purchasesCol ?s1 =
        (case fst (resolve_subscription e1 (or_null (subscription sess))) of
           None \<Rightarrow> purchasesCol s
         | Some side \<Rightarrow>
             updateOne (\<lambda>p. purchaseId p = pid \<and> stripeSessionId p = Some (sess_id sess))
               (?set e1 side) (purchasesCol s))"
      using checkout_completed_ent_purchases[OF gate found, of e1]
      by (simp add: deliver_ent_def stripe_webhook_ent_def ev1)
    show "purchasesCol (deliver_ent e2 body sg ?s1) =
        (case fst (resolve_subscription e2 (or_null (subscription sess))) of
           None \<Rightarrow> purchasesCol ?s1
         | Some side \<Rightarrow>
             updateOne (\<lambda>p. purchaseId p = pid \<and> stripeSessionId p = Some (sess_id sess))
               (?set e2 side) (purchasesCol ?s1))"
      if "findOne (\<lambda>p. purchaseId p = pid \<and> stripeSessionId p = Some (sess_id sess))
            (purchasesCol ?s1) = Some p1" for p1
      using checkout_completed_ent_purchases[OF gate that, of e2]
      by (simp add: deliver_ent_def[of e2] stripe_webhook_ent_def ev2)
  qed (simp_all add: set_paid_keeps)
qed

lemma example_session_meta:
  "meta_of example_session ''purchase_id'' = Some ''VT-1''"
  "meta_of example_session ''guild_id'' = Some ALLOWED_GUILD_ID"
  "meta_of example_session ''user_id'' = Some ''42''"
  "meta_of example_session ''type'' = Some ''product''"
  by (simp_all add: meta_of_def example_session_def product_metadata_def)

lemma example_session_event:
  "constructEvent (example_env (CheckoutSessionCompleted example_session)) ''{}'' (Some ''t=1,v1=ok'')
     = Inr (CheckoutSessionCompleted example_session)"
  "constructEvent (offline_env (CheckoutSessionCompleted example_session)) ''{}'' (Some ''t=1,v1=ok'')
     = Inr (CheckoutSessionCompleted example_session)"
  by (simp_all add: example_env_def offline_env_def)

lemma example_session_lookup:
  "fst (resolve_subscription (example_env ev) (or_null (subscription example_session))) \<noteq> None"
  "resolve_subscription (offline_env ev) (or_null (subscription example_session))
     = (None, [StripeSubscriptionsRetrieve ''sub_1''])"
  by (simp_all add: resolve_subscription_def or_null_def truthy_def example_session_def
      example_env_def offline_env_def)

lemma example_purchase_found:
  "findOne (\<lambda>p. purchaseId p = ''VT-1'' \<and> stripeSessionId p = Some (sess_id example_session))
     (purchasesCol example_store) = Some example_purchase"
  by (simp add: findOne_def example_store_def example_purchase_def example_session_def)

text \<open>
  The first delivery finds Stripe unreachable and is answered with 500; the second, the
  redelivery, goes through.
\<close>

theorem paid_event_replay_witness:
  "constructEvent (offline_env (CheckoutSessionCompleted example_session)) ''{}'' (Some ''t=1,v1=ok'')
     = Inr (CheckoutSessionCompleted example_session)
   \<and> constructEvent (example_env (CheckoutSessionCompleted example_session)) ''{}'' (Some ''t=1,v1=ok'')
     = Inr (CheckoutSessionCompleted example_session)
   \<and> meta_of example_session ''purchase_id'' = Some ''VT-1''
   \<and> meta_of example_session ''guild_id'' = Some ALLOWED_GUILD_ID
   \<and> meta_of example_session ''user_id'' = Some ''42''
   \<and> meta_of example_session ''type'' = Some ''product''
   \<and> distinct (map purchaseId (purchasesCol example_store))
   \<and> findOne (\<lambda>p. purchaseId p = ''VT-1'' \<and> stripeSessionId p = Some (sess_id example_session))
        (purchasesCol example_store) = Some example_purchase
   \<and> fst (resolve_subscription (offline_env (CheckoutSessionCompleted example_session))
            (or_null (subscription example_session))) = None
   \<and> fst (resolve_subscription (example_env (CheckoutSessionCompleted example_session))
            (or_null (subscription example_session))) \<noteq> None
   \<and> one_paid_row ''VT-1'' (sess_id example_session)
        (purchasesCol
          (deliver (example_env (CheckoutSessionCompleted example_session)) ''{}'' (Some ''t=1,v1=ok'')
            (deliver (offline_env (CheckoutSessionCompleted example_session)) ''{}'' (Some ''t=1,v1=ok'')
               example_store)))
   \<and> one_paid_row ''VT-1'' (sess_id example_session)
        (purchasesCol
          (deliver_ent (example_env (CheckoutSessionCompleted example_session)) ''{}'' (Some ''t=1,v1=ok'')
            (deliver_ent (offline_env (CheckoutSessionCompleted example_session)) ''{}'' (Some ''t=1,v1=ok'')
               example_store)))"
proof -
  have n1: "''VT-1'' \<noteq> []" and n3: "''42'' \<noteq> []" and n4: "''product'' \<noteq> []" by simp_all
  have u: "distinct (map purchaseId (purchasesCol example_store))"
    by (simp add: example_store_def)
  note l = example_session_lookup(1)[of "CheckoutSessionCompleted example_session"]
  show ?thesis
    using paid_event_replay[OF example_session_event(2) example_session_event(1)
            example_session_meta(1) n1 example_session_meta(2) example_session_meta(3) n3
            example_session_meta(4) n4 u example_purchase_found disjI2[OF l]]
      example_session_event example_session_meta u example_purchase_found l
      example_session_lookup(2)[of "CheckoutSessionCompleted example_session"]
    by simp
qed

text \<open>
  The claim as first stated fails while Stripe cannot be reached. The event of the paid
  monthly session matches the purchase \<open>VT-1\<close>, but both deliveries stop at the
  subscription lookup and are answered with 500: afterwards the one purchase with that
  purchase id and session id is still \<open>created\<close>, in either revision.
\<close>

theorem paid_event_replay_counterexample:
  "constructEvent (offline_env (CheckoutSessionCompleted example_session)) ''{}'' (Some ''t=1,v1=ok'')
     = Inr (CheckoutSessionCompleted example_session)
   \<and> meta_of example_session ''purchase_id'' = Some (purchaseId example_purchase)
   \<and> meta_of example_session ''guild_id'' = Some ALLOWED_GUILD_ID
   \<and> stripeSessionId example_purchase = Some (sess_id example_session)
   \<and> purchasesCol example_store = [example_purchase]
   \<and> stripe_webhook (offline_env (CheckoutSessionCompleted example_session)) ''{}'' (Some ''t=1,v1=ok'')
        example_store
       = (Send 500 ''Webhook handler failed'', example_store, [StripeSubscriptionsRetrieve ''sub_1''])
   \<and> stripe_webhook_ent (offline_env (CheckoutSessionCompleted example_session)) ''{}'' (Some ''t=1,v1=ok'')
        example_store
       = (Send 500 ''Webhook handler failed'', example_store, [StripeSubscriptionsRetrieve ''sub_1''])
   \<and> purchasesCol
        (deliver (offline_env (CheckoutSessionCompleted example_session)) ''{}'' (Some ''t=1,v1=ok'')
          (deliver (offline_env (CheckoutSessionCompleted example_session)) ''{}'' (Some ''t=1,v1=ok'')
             example_store)) = [example_purchase]
   \<and> purchasesCol
        (deliver_ent (offline_env (CheckoutSessionCompleted example_session)) ''{}'' (Some ''t=1,v1=ok'')
          (deliver_ent (offline_env (CheckoutSessionCompleted example_session)) ''{}'' (Some ''t=1,v1=ok'')
             example_store)) = [example_purchase]
   \<and> status example_purchase = ''created''
   \<and> \<not> one_paid_row ''VT-1'' ''cs_1'' [example_purchase]"
proof -
  let ?e = "offline_env (CheckoutSessionCompleted example_session)"
  have g: "or_null (meta_of example_session ''purchase_id'') = Some ''VT-1''"
      "or_null (meta_of example_session ''guild_id'') = Some ALLOWED_GUILD_ID"
      "or_null (meta_of example_session ''user_id'') = Some ''42''"
      "or_null (meta_of example_session ''type'') = Some ''product''"
    by (simp_all add: example_session_meta or_null_def truthy_def ALLOWED_GUILD_ID_def)
  have stop: "checkout_completed ?e example_session s
                = (Send 500 ''Webhook handler failed'', s, [StripeSubscriptionsRetrieve ''sub_1''])"
    "checkout_completed_ent ?e example_session s
                = (Send 500 ''Webhook handler failed'', s, [StripeSubscriptionsRetrieve ''sub_1''])" for s
    by (simp_all add: checkout_completed_def checkout_completed_ent_def g Let_def
        example_session_lookup(2))
  have run: "stripe_webhook ?e ''{}'' (Some ''t=1,v1=ok'') s
               = (Send 500 ''Webhook handler failed'', s, [StripeSubscriptionsRetrieve ''sub_1''])"
    "stripe_webhook_ent ?e ''{}'' (Some ''t=1,v1=ok'') s
               = (Send 500 ''Webhook handler failed'', s, [StripeSubscriptionsRetrieve ''sub_1''])" for s
    by (simp_all add: stripe_webhook_def stripe_webhook_ent_def example_session_event(2) stop)
  have same: "deliver ?e ''{}'' (Some ''t=1,v1=ok'') s = s"
    "deliver_ent ?e ''{}'' (Some ''t=1,v1=ok'') s = s" for s
    by (simp_all add: deliver_def deliver_ent_def run)
  have row: "purchaseId example_purchase = ''VT-1''"
    "stripeSessionId example_purchase = Some (sess_id example_session)"
    "status example_purchase = ''created''"
    "purchasesCol example_store = [example_purchase]"
    "\<not> one_paid_row ''VT-1'' ''cs_1'' [example_purchase]"
    by (simp_all add: example_purchase_def example_session_def example_store_def one_paid_row_def)
  show ?thesis
    by (simp add: same run example_session_event(2) example_session_meta row)
qed

subsection \<open>Refund requests\<close>

text \<open>
  C5. Once the status of a refund request is no longer \<open>pending\<close>, an approve or reject
  click on it, by any user, changes nothing in the store and makes no call on the payment
  processor, in both revisions of the handler: the decision can be taken once.
\<close>

theorem refund_request_single_use:
  assumes "i_guild i = Some g"
    and "refund_customId (i_customId i) = Some (action, rid)"
    and "findOne (\<lambda>r. rr_requestId r = rid \<and> rr_guildId r = g) (refundRequestsCol s) = Some r"
    and "rr_status r \<noteq> ''pending''"
  shows "fst (refund_button e i s) = s
       \<and> filter is_stripe_call (snd (refund_button e i s)) = []
       \<and> fst (refund_button_ent e i s) = s
       \<and> filter is_stripe_call (snd (refund_button_ent e i s)) = []"
  using assms
  by (cases "g = ALLOWED_GUILD_ID") (simp_all add: refund_button_def refund_button_ent_def)

lemma approve_click_parsed: "refund_customId (i_customId approve_click) = Some (''refund_approve'', ''RR-1'')"
  by (simp add: refund_customId_def startsWith_def segment0_def segment1_def approve_click_def)

theorem refund_request_single_use_witness:
  "i_guild approve_click = Some ALLOWED_GUILD_ID
   \<and> refund_customId (i_customId approve_click) = Some (''refund_approve'', ''RR-1'')
   \<and> findOne (\<lambda>r. rr_requestId r = ''RR-1'' \<and> rr_guildId r = ALLOWED_GUILD_ID)
        (refundRequestsCol (refund_store (pending_request\<lparr>rr_status := ''rejected''\<rparr>)))
       = Some (pending_request\<lparr>rr_status := ''rejected''\<rparr>)
   \<and> rr_status (pending_request\<lparr>rr_status := ''rejected''\<rparr>) \<noteq> ''pending''
   \<and> fst (refund_button (example_env (OtherEvent ''ping'')) approve_click
             (refund_store (pending_request\<lparr>rr_status := ''rejected''\<rparr>)))
       = refund_store (pending_request\<lparr>rr_status := ''rejected''\<rparr>)
   \<and> filter is_stripe_call
         (snd (refund_button_ent (example_env (OtherEvent ''ping'')) approve_click
                 (refund_store (pending_request\<lparr>rr_status := ''rejected''\<rparr>)))) = []"
proof -
  let ?r = "pending_request\<lparr>rr_status := ''rejected''\<rparr>"
  have h1: "i_guild approve_click = Some ALLOWED_GUILD_ID" by (simp add: approve_click_def)
  have h3: "findOne (\<lambda>r. rr_requestId r = ''RR-1'' \<and> rr_guildId r = ALLOWED_GUILD_ID)
              (refundRequestsCol (refund_store ?r)) = Some ?r"
    by (simp add: findOne_def refund_store_def pending_request_def)
  have h4: "rr_status ?r \<noteq> ''pending''" by simp
  show ?thesis
    using refund_request_single_use[OF h1 approve_click_parsed h3 h4,
            of "example_env (OtherEvent ''ping'')"]
      h1 approve_click_parsed h3 h4 by simp
qed



text \<open>
  \<open>executeRefundInternal\<close> throws the error of a rejected \<open>refunds.create\<close> or
  \<open>subscriptions.retrieve\<close>. A rejected \<open>subscriptions.cancel\<close> is not thrown.
\<close>

lemma rejected_call_thrown:
  assumes "call \<in> set (snd (executeRefundInternal e p))"
    and "\<not> is_cancel call" and "call_error e call = Some x"
  shows "fst (executeRefundInternal e p) = Inl x"
  using assms
  by (auto simp: executeRefundInternal_def cancel_subscription_def split: option.splits sum.splits)

text \<open>
  C3, as amended. When the approver approves a pending refund request inside the window
  and \<open>executeRefundInternal\<close> throws, as it does when the payment processor rejects its
  \<open>refunds.create\<close> or its \<open>subscriptions.retrieve\<close> call and when the purchase has no
  payment reference, the request ends as \<open>failed\<close>, its failure reason is the text of that
  error cut to 200 code units, and the purchases, so the status of the purchase, stay as
  they were: nothing is marked \<open>refunded\<close>.
\<close>

theorem refund_execution_failure:
  assumes "i_guild i = Some ALLOWED_GUILD_ID"
    and "i_user i = REFUND_APPROVER_USER_ID"
    and "refund_customId (i_customId i) = Some (''refund_approve'', rid)"
    and "distinct (map rr_requestId (refundRequestsCol s))"
    and "findOne (\<lambda>r. rr_requestId r = rid \<and> rr_guildId r = ALLOWED_GUILD_ID) (refundRequestsCol s) = Some reqDoc"
    and "rr_status reqDoc = ''pending''"
    and "findOne (\<lambda>p. purchaseId p = rr_purchaseId reqDoc \<and> guildId p = ALLOWED_GUILD_ID) (purchasesCol s) = Some p"
    and "\<not> window_expired (now e) (paidAt p)"
    and failure: "fst (executeRefundInternal e p) = Inl x
           \<or> (\<exists>call \<in> set (snd (executeRefundInternal e p)). \<not> is_cancel call \<and> call_error e call = Some x)"
  shows "findOne (\<lambda>r. rr_requestId r = rid \<and> rr_guildId r = ALLOWED_GUILD_ID)
             (refundRequestsCol (fst (refund_button e i s)))
           = Some (reqDoc\<lparr>rr_status := ''failed'', rr_approvedAt := Some (now e),
                          rr_approvedBy := Some (i_user i), rr_failedAt := Some (now e),
                          rr_failureReason := Some (failure_text x)\<rparr>)
       \<and> purchasesCol (fst (refund_button e i s)) = purchasesCol s"
proof -
  let ?flt = "\<lambda>r. rr_requestId r = rid \<and> rr_guildId r = ALLOWED_GUILD_ID"
  let ?appr = "\<lambda>r. r\<lparr>rr_status := ''approved'', rr_approvedAt := Some (now e),
                        rr_approvedBy := Some (i_user i)\<rparr>"
  let ?fail = "request_failed (now e) (failure_text x)"
  have rid: "rr_requestId reqDoc = rid" and gd: "rr_guildId reqDoc = ALLOWED_GUILD_ID"
    using assms(5) by (auto simp: findOne_def find_Some_iff)
  have thrown: "fst (executeRefundInternal e p) = Inl x"
    using failure rejected_call_thrown by blast
  obtain effs where ex: "executeRefundInternal e p = (Inl x, effs)"
    using thrown by (cases "executeRefundInternal e p") auto
  have run: "refund_button e i s =
      (update_request rid ?fail (update_request rid ?appr s),
       InteractionDefer # effs @ [InteractionUpdate ''failed''])"
    using assms(1-3,5-8) ex by (simp add: refund_button_def approve_refund_def Let_def)
  let ?col1 = "updateOne (\<lambda>r. rr_requestId r = rr_requestId reqDoc) ?appr (refundRequestsCol s)"
  have one: "findOne ?flt ?col1 = Some (?appr reqDoc)"
    by (rule updateOne_find_distinct[OF assms(4) assms(5)]) (simp add: rid gd)
  have d1: "distinct (map rr_requestId ?col1)"
    using assms(4) by (simp add: updateOne_keys)
  have "findOne ?flt (updateOne (\<lambda>r. rr_requestId r = rr_requestId (?appr reqDoc)) ?fail ?col1)
          = Some (?fail (?appr reqDoc))"
    by (rule updateOne_find_distinct[OF d1 one]) (simp add: request_failed_def rid gd)
  then show ?thesis
    by (simp add: run update_request_def rid request_failed_def)
qed

text \<open>The payment was made on a payment intent, and Stripe refuses the refund.\<close>

theorem refund_execution_failure_witness:
  "i_guild approve_click = Some ALLOWED_GUILD_ID
   \<and> i_user approve_click = REFUND_APPROVER_USER_ID
   \<and> refund_customId (i_customId approve_click) = Some (''refund_approve'', ''RR-1'')
   \<and> distinct (map rr_requestId (refundRequestsCol (refund_store pending_request)))
   \<and> findOne (\<lambda>r. rr_requestId r = ''RR-1'' \<and> rr_guildId r = ALLOWED_GUILD_ID)
        (refundRequestsCol (refund_store pending_request)) = Some pending_request
   \<and> rr_status pending_request = ''pending''
   \<and> findOne (\<lambda>p. purchaseId p = rr_purchaseId pending_request \<and> guildId p = ALLOWED_GUILD_ID)
        (purchasesCol (refund_store pending_request)) = Some paid_purchase
   \<and> \<not> window_expired (now (example_env (OtherEvent ''ping''))) (paidAt paid_purchase)
   \<and> StripeRefundsCreate ''pi_1''
        \<in> set (snd (executeRefundInternal (example_env (OtherEvent ''ping'')) paid_purchase))
   \<and> \<not> is_cancel (StripeRefundsCreate ''pi_1'')
   \<and> call_error (example_env (OtherEvent ''ping'')) (StripeRefundsCreate ''pi_1'')
       = Some (Exn ''Charge already refunded'' ''Error: Charge already refunded'')
   \<and> findOne (\<lambda>r. rr_requestId r = ''RR-1'' \<and> rr_guildId r = ALLOWED_GUILD_ID)
        (refundRequestsCol
          (fst (refund_button (example_env (OtherEvent ''ping'')) approve_click
                  (refund_store pending_request))))
       = Some (pending_request\<lparr>rr_status := ''failed'', rr_approvedAt := Some 5000,
                               rr_approvedBy := Some REFUND_APPROVER_USER_ID,
                               rr_failedAt := Some 5000,
                               rr_failureReason := Some ''Charge already refunded''\<rparr>)
   \<and> purchasesCol
        (fst (refund_button (example_env (OtherEvent ''ping'')) approve_click
                (refund_store pending_request))) = [paid_purchase]
   \<and> status paid_purchase = ''paid''"
proof -
  let ?e = "example_env (OtherEvent ''ping'')"
  let ?x = "Exn ''Charge already refunded'' ''Error: Charge already refunded''"
  have h1: "i_guild approve_click = Some ALLOWED_GUILD_ID"
    and h2: "i_user approve_click = REFUND_APPROVER_USER_ID"
    by (simp_all add: approve_click_def)
  have h4: "distinct (map rr_requestId (refundRequestsCol (refund_store pending_request)))"
    by (simp add: refund_store_def)
  have h5: "findOne (\<lambda>r. rr_requestId r = ''RR-1'' \<and> rr_guildId r = ALLOWED_GUILD_ID)
              (refundRequestsCol (refund_store pending_request)) = Some pending_request"
    by (simp add: findOne_def refund_store_def pending_request_def)
  have h6: "rr_status pending_request = ''pending''" by (simp add: pending_request_def)
  have h7: "findOne (\<lambda>p. purchaseId p = rr_purchaseId pending_request \<and> guildId p = ALLOWED_GUILD_ID)
              (purchasesCol (refund_store pending_request)) = Some paid_purchase"
    by (simp add: findOne_def refund_store_def pending_request_def paid_purchase_def
        example_purchase_def)
  have h8: "\<not> window_expired (now ?e) (paidAt paid_purchase)"
    by (simp add: window_expired_def REFUND_WINDOW_MS_def paid_purchase_def example_env_def)
  have c1: "StripeRefundsCreate ''pi_1'' \<in> set (snd (executeRefundInternal ?e paid_purchase))"
    by (simp add: executeRefundInternal_def or_null_def truthy_def paid_purchase_def example_env_def)
  have c2: "\<not> is_cancel (StripeRefundsCreate ''pi_1'')" by simp
  have c3: "call_error ?e (StripeRefundsCreate ''pi_1'') = Some ?x"
    by (simp add: example_env_def)
  have h9: "fst (executeRefundInternal ?e paid_purchase) = Inl ?x
        \<or> (\<exists>call \<in> set (snd (executeRefundInternal ?e paid_purchase)).
              \<not> is_cancel call \<and> call_error ?e call = Some ?x)"
    using c1 c2 c3 by blast
  have p: "purchasesCol (refund_store pending_request) = [paid_purchase]"
    and st: "status paid_purchase = ''paid''"
    and t: "now ?e = 5000"
    and ft: "failure_text ?x = ''Charge already refunded''"
    by (simp_all add: refund_store_def paid_purchase_def example_env_def failure_text_def)
  show ?thesis
    using refund_execution_failure[OF h1 h2 approve_click_parsed h4 h5 h6 h7 h8 h9]
      h1 h2 approve_click_parsed h4 h5 h6 h7 h8 c1 c3 p st t ft by simp
qed

text \<open>What an approval does to the store of the example when \<open>executeRefundInternal\<close> returns.\<close>

lemma subscription_refund_run:
  assumes ex: "executeRefundInternal e subscribed_purchase = (Inr refundId, effs)"
    and t: "now e = 5000"
  shows "refundRequestsCol (fst (refund_button e approve_click subscription_refund_store))
           = [pending_request\<lparr>rr_status := ''executed'', rr_approvedAt := Some 5000,
                              rr_approvedBy := Some REFUND_APPROVER_USER_ID,
                              rr_executedAt := Some 5000\<rparr>]"
    and "purchasesCol (fst (refund_button e approve_click subscription_refund_store))
           = [subscribed_purchase\<lparr>status := ''refunded'', refundedAt := Some 5000,
                                  stripeRefundId := refundId\<rparr>]"
    and "filter is_refund_create (snd (refund_button e approve_click subscription_refund_store))
           = filter is_refund_create effs"
proof -
  have w: "\<not> window_expired 5000 (paidAt subscribed_purchase)"
    by (simp add: window_expired_def REFUND_WINDOW_MS_def subscribed_purchase_def)
  have i: "i_guild approve_click = Some ALLOWED_GUILD_ID" "i_user approve_click = REFUND_APPROVER_USER_ID"
    by (simp_all add: approve_click_def)
  have rq: "findOne (\<lambda>r. rr_requestId r = ''RR-1'' \<and> rr_guildId r = ALLOWED_GUILD_ID)
              [pending_request] = Some pending_request"
    "rr_status pending_request = ''pending''" "rr_requestId pending_request = ''RR-1''"
    "rr_purchaseId pending_request = ''VT-1''"
    "refundRequestsCol subscription_refund_store = [pending_request]"
    by (simp_all add: findOne_def subscription_refund_store_def pending_request_def)
  have pu: "findOne (\<lambda>p. purchaseId p = ''VT-1'' \<and> guildId p = ALLOWED_GUILD_ID)
              [subscribed_purchase] = Some subscribed_purchase"
    "purchasesCol subscription_refund_store = [subscribed_purchase]"
    "purchaseId subscribed_purchase = ''VT-1''"
    by (simp_all add: findOne_def subscription_refund_store_def subscribed_purchase_def
        example_purchase_def)
  have rm: "filter is_refund_create (refund_remove_role e subscribed_purchase) = []"
    by (simp add: refund_remove_role_def split: option.splits)
  have run: "refund_button e approve_click subscription_refund_store =
      (subscription_refund_store
         \<lparr>refundRequestsCol :=
            [pending_request\<lparr>rr_status := ''executed'', rr_approvedAt := Some 5000,
                             rr_approvedBy := Some REFUND_APPROVER_USER_ID,
                             rr_executedAt := Some 5000\<rparr>],
          purchasesCol :=
            [subscribed_purchase\<lparr>status := ''refunded'', refundedAt := Some 5000,
                                 stripeRefundId := refundId\<rparr>]\<rparr>,
       InteractionDefer # effs @ refund_remove_role e subscribed_purchase
         @ [InteractionUpdate ''refunded''])"
    by (simp add: refund_button_def approve_refund_def i approve_click_parsed rq pu w ex t
        Let_def update_request_def purchase_refunded_def)
  show "refundRequestsCol (fst (refund_button e approve_click subscription_refund_store))
           = [pending_request\<lparr>rr_status := ''executed'', rr_approvedAt := Some 5000,
                              rr_approvedBy := Some REFUND_APPROVER_USER_ID,
                              rr_executedAt := Some 5000\<rparr>]"
    and "purchasesCol (fst (refund_button e approve_click subscription_refund_store))
           = [subscribed_purchase\<lparr>status := ''refunded'', refundedAt := Some 5000,
                                  stripeRefundId := refundId\<rparr>]"
    and "filter is_refund_create (snd (refund_button e approve_click subscription_refund_store))
           = filter is_refund_create effs"
    by (simp_all add: run rm)
qed

text \<open>
  The claim as first stated fails in two ways; in both the approved request is for the
  paid purchase of the subscription \<open>sub_1\<close>. In the first Stripe refunds the payment of
  the latest invoice and then rejects the cancellation of the subscription. The handler
  swallows that error: the request ends as \<open>executed\<close> and the purchase as \<open>refunded\<close>.
  In the second Stripe reports no payment intent on the latest invoice. No refund is
  created, and still the request ends as \<open>executed\<close> and the purchase as \<open>refunded\<close>,
  without a refund id.
\<close>

theorem refund_execution_failure_counterexample:
  "i_guild approve_click = Some ALLOWED_GUILD_ID
   \<and> i_user approve_click = REFUND_APPROVER_USER_ID
   \<and> refund_customId (i_customId approve_click) = Some (''refund_approve'', ''RR-1'')
   \<and> refundRequestsCol subscription_refund_store = [pending_request]
   \<and> rr_status pending_request = ''pending''
   \<and> purchasesCol subscription_refund_store = [subscribed_purchase]
   \<and> status subscribed_purchase = ''paid''
   \<and> \<not> window_expired (now cancel_rejected_env) (paidAt subscribed_purchase)
   \<and> snd (executeRefundInternal cancel_rejected_env subscribed_purchase)
       = [StripeSubscriptionsRetrieve ''sub_1'', StripeRefundsCreate ''pi_7'',
          StripeSubscriptionsCancel ''sub_1'']
   \<and> call_error cancel_rejected_env (StripeSubscriptionsCancel ''sub_1'')
       = Some (Exn ''An error occurred with our connection to Stripe.''
                   ''Error: An error occurred with our connection to Stripe.'')
   \<and> refundRequestsCol (fst (refund_button cancel_rejected_env approve_click subscription_refund_store))
       = [pending_request\<lparr>rr_status := ''executed'', rr_approvedAt := Some 5000,
                          rr_approvedBy := Some REFUND_APPROVER_USER_ID,
                          rr_executedAt := Some 5000\<rparr>]
   \<and> purchasesCol (fst (refund_button cancel_rejected_env approve_click subscription_refund_store))
       = [subscribed_purchase\<lparr>status := ''refunded'', refundedAt := Some 5000,
                              stripeRefundId := Some ''re_1''\<rparr>]
   \<and> \<not> window_expired (now no_invoice_env) (paidAt subscribed_purchase)
   \<and> filter is_refund_create
        (snd (refund_button no_invoice_env approve_click subscription_refund_store)) = []
   \<and> refundRequestsCol (fst (refund_button no_invoice_env approve_click subscription_refund_store))
       = [pending_request\<lparr>rr_status := ''executed'', rr_approvedAt := Some 5000,
                          rr_approvedBy := Some REFUND_APPROVER_USER_ID,
                          rr_executedAt := Some 5000\<rparr>]
   \<and> purchasesCol (fst (refund_button no_invoice_env approve_click subscription_refund_store))
       = [subscribed_purchase\<lparr>status := ''refunded'', refundedAt := Some 5000,
                              stripeRefundId := None\<rparr>]"
proof -
  have ex1: "executeRefundInternal cancel_rejected_env subscribed_purchase
              = (Inr (Some ''re_1''),
                 [StripeSubscriptionsRetrieve ''sub_1'', StripeRefundsCreate ''pi_7'',
                  StripeSubscriptionsCancel ''sub_1''])"
    by (simp add: executeRefundInternal_def cancel_subscription_def or_null_def truthy_def
        subscribed_purchase_def example_purchase_def cancel_rejected_env_def example_env_def)
  have ex2: "executeRefundInternal no_invoice_env subscribed_purchase
              = (Inr None, [StripeSubscriptionsRetrieve ''sub_1'', StripeSubscriptionsCancel ''sub_1''])"
    by (simp add: executeRefundInternal_def cancel_subscription_def or_null_def truthy_def
        subscribed_purchase_def example_purchase_def no_invoice_env_def example_env_def)
  have ce: "subscriptions_cancel cancel_rejected_env ''sub_1''
       = Inl (Exn ''An error occurred with our connection to Stripe.''
                  ''Error: An error occurred with our connection to Stripe.'')"
    by (simp add: cancel_rejected_env_def)
  have t: "now cancel_rejected_env = 5000" "now no_invoice_env = 5000"
    by (simp_all add: cancel_rejected_env_def no_invoice_env_def example_env_def)
  have w: "\<not> window_expired 5000 (paidAt subscribed_purchase)"
    by (simp add: window_expired_def REFUND_WINDOW_MS_def subscribed_purchase_def)
  have i: "i_guild approve_click = Some ALLOWED_GUILD_ID" "i_user approve_click = REFUND_APPROVER_USER_ID"
    by (simp_all add: approve_click_def)
  have rows: "refundRequestsCol subscription_refund_store = [pending_request]"
    "rr_status pending_request = ''pending''"
    "purchasesCol subscription_refund_store = [subscribed_purchase]"
    "status subscribed_purchase = ''paid''"
    by (simp_all add: subscription_refund_store_def pending_request_def subscribed_purchase_def)
  show ?thesis
    using subscription_refund_run[OF ex1 t(1)] subscription_refund_run[OF ex2 t(2)]
    by (simp add: ex1 ce t w i approve_click_parsed rows)
qed

subsection \<open>The end of a subscription\<close>

lemma newer_trans: "\<not> newer a b \<Longrightarrow> \<not> newer b c \<Longrightarrow> \<not> newer a c"
  by (cases a; cases b; cases c) auto

lemma newer_asym: "newer a b \<Longrightarrow> \<not> newer b a"
  by (cases a; cases b) auto

lemma most_recent_Some:
  "most_recent ps = Some p \<Longrightarrow> p \<in> set ps \<and> list_all (\<lambda>q. \<not> newer (paidAt q) (paidAt p)) ps"
proof (induction ps arbitrary: p)
  case Nil
  then show ?case by simp
next
  case (Cons a ps)
  show ?case
  proof (cases "most_recent ps")
    case None
    then have "ps = []" by (cases ps) (auto split: option.splits if_splits)
    then show ?thesis using Cons.prems None by (cases "paidAt a") auto
  next
    case (Some q)
    note ih = Cons.IH[OF Some]
    show ?thesis
    proof (cases "newer (paidAt q) (paidAt a)")
      case True
      then have "p = q" using Cons.prems Some by simp
      then show ?thesis using ih True newer_asym by auto
    next
      case False
      then have pa: "p = a" using Cons.prems Some by simp
      have "\<not> newer (paidAt x) (paidAt a)" if "x \<in> set ps" for x
      proof -
        have "\<not> newer (paidAt x) (paidAt q)" using ih that by (auto simp: list_all_iff)
        then show ?thesis using False newer_trans by blast
      qed
      moreover have "\<not> newer (paidAt a) (paidAt a)" by (cases "paidAt a") auto
      ultimately show ?thesis using pa by (auto simp: list_all_iff)
    qed
  qed
qed

lemma findOne_latest_Some:
  assumes "findOne_latest flt col = Some p"
  shows "p \<in> set col" and "flt p"
    and "list_all (\<lambda>q. \<not> newer (paidAt q) (paidAt p)) (filter flt col)"
  using most_recent_Some[OF assms[unfolded findOne_latest_def]] by auto

lemma subscription_deleted_purchases:
  "purchasesCol (fst (snd (subscription_deleted e sub s))) =
     (if fst (subscription_deleted e sub s) = Json_received
      then map (\<lambda>p. if stripeSubscriptionId p = Some (sub_id sub) \<and> status p = ''paid''
                      then ended_row (now e) p else p) (purchasesCol s)
      else purchasesCol s)"
  by (auto simp: subscription_deleted_def mark_subscription_ended_def updateMany_def ended_row_def
      Let_def split: option.splits prod.splits bool.splits dest: logToPurchaseLog_frame)

lemma logToPurchaseLog_no_removal:
  "logToPurchaseLog e g t s = (b, s', effs) \<Longrightarrow> filter is_role_removal effs = []"
  by (auto simp: logToPurchaseLog_def ensurePurchaseLogChannel_def Let_def
      split: option.splits if_splits prod.splits)

lemma logToPurchaseLog_thrown:
  "logToPurchaseLog e g t s = (b, s', effs) \<Longrightarrow> b = (fst (ensurePurchaseLogChannel e g s) \<noteq> None)"
  by (auto simp: logToPurchaseLog_def split: prod.splits option.splits)

text \<open>The response and the role removals, given the purchase that the handler selects.\<close>

lemma subscription_deleted_run:
  assumes "findOne_latest
             (\<lambda>p. stripeSubscriptionId p = Some (sub_id sub) \<and> status p = ''paid'' \<and> ptype p = ''product'')
             (purchasesCol s) = Some p"
  shows "fst (subscription_deleted e sub s) =
           (if guilds_fetch e (guildId p) \<and> fst (ensurePurchaseLogChannel e (guildId p) s) = None
            then Send 500 ''Webhook handler failed'' else Json_received)"
    and "filter is_role_removal (snd (snd (subscription_deleted e sub s))) =
           (if guilds_fetch e (guildId p) \<and> members_fetch e (guildId p) (userId p)
            then (case or_null (roleId p) of None \<Rightarrow> []
                  | Some role \<Rightarrow> [RolesRemove (guildId p) (userId p) role])
            else [])"
proof -
  obtain b s' effs where l: "logToPurchaseLog e (guildId p) ''Subscription Ended'' s = (b, s', effs)"
    by (cases "logToPurchaseLog e (guildId p) ''Subscription Ended'' s") auto
  note b = logToPurchaseLog_thrown[OF l] and r = logToPurchaseLog_no_removal[OF l]
  show "fst (subscription_deleted e sub s) =
           (if guilds_fetch e (guildId p) \<and> fst (ensurePurchaseLogChannel e (guildId p) s) = None
            then Send 500 ''Webhook handler failed'' else Json_received)"
    by (insert b, cases b) (simp_all add: subscription_deleted_def assms l Let_def)
  have out: "snd (snd (subscription_deleted e sub s)) =
      (if guilds_fetch e (guildId p) then remove_role e p @ effs else [])"
    by (cases b) (simp_all add: subscription_deleted_def assms l Let_def)
  show "filter is_role_removal (snd (snd (subscription_deleted e sub s))) =
           (if guilds_fetch e (guildId p) \<and> members_fetch e (guildId p) (userId p)
            then (case or_null (roleId p) of None \<Rightarrow> []
                  | Some role \<Rightarrow> [RolesRemove (guildId p) (userId p) role])
            else [])"
    unfolding out using r
    by (cases "guilds_fetch e (guildId p)"; cases "members_fetch e (guildId p) (userId p)";
        cases "or_null (roleId p)"; simp add: remove_role_def)
qed

text \<open>
  C8, as amended. Take a verified \<open>customer.subscription.deleted\<close> event for a
  subscription reference tied to a \<open>paid\<close> purchase, and let \<open>p\<close> be the most recent
  \<open>paid\<close> purchase with that reference. The purchases that carry the reference are
  \<open>paid\<close> product purchases: the service writes a subscription reference only in the paid
  transition of the checkout session that created the subscription, onto the one purchase
  of that session, and it opens subscription sessions for products only.

  The role removal is best effort: it is issued, for the buyer of \<open>p\<close> and the role that
  \<open>p\<close> records, exactly when the guild and the member can be fetched, and a failure to
  fetch them is no error. The handler answers 500 when the guild can be fetched and the
  purchase log channel can neither be found nor created, and acknowledges the event
  otherwise. When it acknowledges, every purchase with that subscription reference gets
  \<open>subscriptionStatus\<close> \<open>canceled\<close> and an end time, and nothing else changes: every
  purchase with another subscription reference, and every other field, stay as they
  were. When it answers 500, no purchase changes.
\<close>

theorem subscription_deleted_effect:
  assumes ev: "constructEvent e body sg = Inr (SubscriptionDeleted sub)"
    and tied: "findOne_latest (\<lambda>q. stripeSubscriptionId q = Some (sub_id sub) \<and> status q = ''paid'')
                 (purchasesCol s) = Some p"
    and rows: "list_all (\<lambda>q. stripeSubscriptionId q = Some (sub_id sub)
                               \<longrightarrow> status q = ''paid'' \<and> ptype q = ''product'') (purchasesCol s)"
  shows "p \<in> set (purchasesCol s)
       \<and> list_all (\<lambda>q. \<not> newer (paidAt q) (paidAt p))
            (filter (\<lambda>q. stripeSubscriptionId q = Some (sub_id sub) \<and> status q = ''paid'')
               (purchasesCol s))
       \<and> filter is_role_removal (snd (snd (stripe_webhook e body sg s))) =
            (if guilds_fetch e (guildId p) \<and> members_fetch e (guildId p) (userId p)
             then (case or_null (roleId p) of None \<Rightarrow> []
                   | Some role \<Rightarrow> [RolesRemove (guildId p) (userId p) role])
             else [])
       \<and> fst (stripe_webhook e body sg s) =
            (if guilds_fetch e (guildId p) \<and> fst (ensurePurchaseLogChannel e (guildId p) s) = None
             then Send 500 ''Webhook handler failed'' else Json_received)
       \<and> purchasesCol (deliver e body sg s) =
            (if fst (stripe_webhook e body sg s) = Json_received
             then map (\<lambda>q. if stripeSubscriptionId q = Some (sub_id sub)
                             then ended_row (now e) q else q) (purchasesCol s)
             else purchasesCol s)"
proof -
  have run: "stripe_webhook e body sg s = subscription_deleted e sub s"
    by (simp add: stripe_webhook_def ev)
  have same: "filter (\<lambda>q. stripeSubscriptionId q = Some (sub_id sub) \<and> status q = ''paid''
                            \<and> ptype q = ''product'') (purchasesCol s)
                = filter (\<lambda>q. stripeSubscriptionId q = Some (sub_id sub) \<and> status q = ''paid'')
                    (purchasesCol s)"
    using rows by (intro filter_cong) (auto simp: list_all_iff)
  have sel: "findOne_latest
               (\<lambda>q. stripeSubscriptionId q = Some (sub_id sub) \<and> status q = ''paid'' \<and> ptype q = ''product'')
               (purchasesCol s) = Some p"
    using tied by (simp add: findOne_latest_def same)
  have all: "map (\<lambda>q. if stripeSubscriptionId q = Some (sub_id sub) \<and> status q = ''paid''
                        then ended_row (now e) q else q) (purchasesCol s)
               = map (\<lambda>q. if stripeSubscriptionId q = Some (sub_id sub)
                            then ended_row (now e) q else q) (purchasesCol s)"
    using rows by (intro map_cong) (auto simp: list_all_iff)
  show ?thesis
    using findOne_latest_Some[OF tied] subscription_deleted_run[OF sel, of e]
      subscription_deleted_purchases[of e sub s]
    by (simp add: run deliver_def all)
qed

lemma subscription_example_rows:
  "purchasesCol subscription_store = [subscribed_purchase, refunded_purchase, unrelated_purchase]"
  "stripeSubscriptionId subscribed_purchase = Some (sub_id example_sub)"
  "stripeSubscriptionId refunded_purchase \<noteq> Some (sub_id example_sub)"
  "stripeSubscriptionId unrelated_purchase \<noteq> Some (sub_id example_sub)"
  "status subscribed_purchase = ''paid''" "ptype subscribed_purchase = ''product''"
  "guildId subscribed_purchase = ALLOWED_GUILD_ID" "userId subscribed_purchase = ''42''"
  "roleId subscribed_purchase = Some ''7''"
  "subscriptionStatus subscribed_purchase = Some ''active''"
  by (simp_all add: subscription_store_def subscribed_purchase_def refunded_purchase_def
      unrelated_purchase_def example_purchase_def example_sub_def)

lemma subscription_example_latest:
  "findOne_latest (\<lambda>q. stripeSubscriptionId q = Some (sub_id example_sub) \<and> status q = ''paid'')
     (purchasesCol subscription_store) = Some subscribed_purchase"
  by (simp add: findOne_latest_def subscription_example_rows)

lemma subscription_example_paid:
  "list_all (\<lambda>q. stripeSubscriptionId q = Some (sub_id example_sub)
                   \<longrightarrow> status q = ''paid'' \<and> ptype q = ''product'') (purchasesCol subscription_store)"
  by (simp add: subscription_example_rows)

lemma subscription_example_event:
  "constructEvent (example_env (SubscriptionDeleted example_sub)) ''{}'' (Some ''t=1,v1=ok'')
     = Inr (SubscriptionDeleted example_sub)"
  "constructEvent departed_env ''{}'' (Some ''t=1,v1=ok'') = Inr (SubscriptionDeleted example_sub)"
  "constructEvent no_log_env ''{}'' (Some ''t=1,v1=ok'') = Inr (SubscriptionDeleted example_sub)"
  by (simp_all add: example_env_def departed_env_def no_log_env_def)

lemma subscription_example_channel:
  "fst (ensurePurchaseLogChannel (example_env ev) ALLOWED_GUILD_ID subscription_store) = Some ''900''"
  "fst (ensurePurchaseLogChannel departed_env ALLOWED_GUILD_ID subscription_store) = Some ''900''"
  "fst (ensurePurchaseLogChannel no_log_env ALLOWED_GUILD_ID subscription_store) = None"
  by (simp_all add: ensurePurchaseLogChannel_def getConfig_def findOne_def Let_def
      subscription_store_def example_store_def example_env_def departed_env_def no_log_env_def)

lemma subscription_example_reach:
  "guilds_fetch (example_env ev) ALLOWED_GUILD_ID" "members_fetch (example_env ev) ALLOWED_GUILD_ID ''42''"
  "guilds_fetch departed_env ALLOWED_GUILD_ID" "\<not> members_fetch departed_env ALLOWED_GUILD_ID ''42''"
  "guilds_fetch no_log_env ALLOWED_GUILD_ID" "members_fetch no_log_env ALLOWED_GUILD_ID ''42''"
  "now (example_env ev) = 5000" "now departed_env = 5000" "now no_log_env = 5000"
  by (simp_all add: example_env_def departed_env_def no_log_env_def)

text \<open>The buyer is still a member of the guild, and the purchase log channel exists.\<close>

theorem subscription_deleted_effect_witness:
  "constructEvent (example_env (SubscriptionDeleted example_sub)) ''{}'' (Some ''t=1,v1=ok'')
     = Inr (SubscriptionDeleted example_sub)
   \<and> findOne_latest (\<lambda>q. stripeSubscriptionId q = Some (sub_id example_sub) \<and> status q = ''paid'')
        (purchasesCol subscription_store) = Some subscribed_purchase
   \<and> list_all (\<lambda>q. stripeSubscriptionId q = Some (sub_id example_sub)
                     \<longrightarrow> status q = ''paid'' \<and> ptype q = ''product'') (purchasesCol subscription_store)
   \<and> filter is_role_removal
        (snd (snd (stripe_webhook (example_env (SubscriptionDeleted example_sub)) ''{}''
                     (Some ''t=1,v1=ok'') subscription_store)))
       = [RolesRemove ALLOWED_GUILD_ID ''42'' ''7'']
   \<and> fst (stripe_webhook (example_env (SubscriptionDeleted example_sub)) ''{}'' (Some ''t=1,v1=ok'')
            subscription_store) = Json_received
   \<and> purchasesCol (deliver (example_env (SubscriptionDeleted example_sub)) ''{}'' (Some ''t=1,v1=ok'')
        subscription_store)
       = [ended_row 5000 subscribed_purchase, refunded_purchase, unrelated_purchase]"
  using subscription_deleted_effect[OF subscription_example_event(1) subscription_example_latest
          subscription_example_paid]
    subscription_example_event(1) subscription_example_latest subscription_example_paid
  by (simp add: subscription_example_rows subscription_example_channel subscription_example_reach
      or_null_def truthy_def)

text \<open>
  The claim as first stated fails in two ways. When the buyer has left the guild, the
  member cannot be fetched: the event is acknowledged and the purchase gets
  \<open>subscriptionStatus\<close> \<open>canceled\<close>, but no role removal is issued. When the guild has no
  purchase log channel and none can be created, the role removal is issued, but the
  handler answers 500 before the update: the purchase keeps the \<open>subscriptionStatus\<close>
  \<open>active\<close>.
\<close>

theorem subscription_deleted_effect_counterexample:
  "constructEvent departed_env ''{}'' (Some ''t=1,v1=ok'') = Inr (SubscriptionDeleted example_sub)
   \<and> constructEvent no_log_env ''{}'' (Some ''t=1,v1=ok'') = Inr (SubscriptionDeleted example_sub)
   \<and> purchasesCol subscription_store = [subscribed_purchase, refunded_purchase, unrelated_purchase]
   \<and> stripeSubscriptionId subscribed_purchase = Some (sub_id example_sub)
   \<and> status subscribed_purchase = ''paid''
   \<and> roleId subscribed_purchase = Some ''7''
   \<and> subscriptionStatus subscribed_purchase = Some ''active''
   \<and> fst (stripe_webhook departed_env ''{}'' (Some ''t=1,v1=ok'') subscription_store) = Json_received
   \<and> filter is_role_removal
        (snd (snd (stripe_webhook departed_env ''{}'' (Some ''t=1,v1=ok'') subscription_store))) = []
   \<and> purchasesCol (deliver departed_env ''{}'' (Some ''t=1,v1=ok'') subscription_store)
       = [ended_row 5000 subscribed_purchase, refunded_purchase, unrelated_purchase]
   \<and> fst (stripe_webhook no_log_env ''{}'' (Some ''t=1,v1=ok'') subscription_store)
       = Send 500 ''Webhook handler failed''
   \<and> filter is_role_removal
        (snd (snd (stripe_webhook no_log_env ''{}'' (Some ''t=1,v1=ok'') subscription_store)))
       = [RolesRemove ALLOWED_GUILD_ID ''42'' ''7'']
   \<and> purchasesCol (deliver no_log_env ''{}'' (Some ''t=1,v1=ok'') subscription_store)
       = [subscribed_purchase, refunded_purchase, unrelated_purchase]"
proof -
  have sel: "findOne_latest
               (\<lambda>p. stripeSubscriptionId p = Some (sub_id example_sub) \<and> status p = ''paid''
                     \<and> ptype p = ''product'')
               (purchasesCol subscription_store) = Some subscribed_purchase"
    by (simp add: findOne_latest_def subscription_example_rows)
  have run: "stripe_webhook departed_env ''{}'' (Some ''t=1,v1=ok'') subscription_store
               = subscription_deleted departed_env example_sub subscription_store"
    "stripe_webhook no_log_env ''{}'' (Some ''t=1,v1=ok'') subscription_store
               = subscription_deleted no_log_env example_sub subscription_store"
    by (simp_all add: stripe_webhook_def subscription_example_event)
  have r1: "fst (subscription_deleted departed_env example_sub subscription_store) = Json_received"
    "filter is_role_removal (snd (snd (subscription_deleted departed_env example_sub subscription_store))) = []"
    using subscription_deleted_run[OF sel, of departed_env]
    by (simp_all add: subscription_example_rows subscription_example_channel subscription_example_reach)
  have r2: "fst (subscription_deleted no_log_env example_sub subscription_store)
              = Send 500 ''Webhook handler failed''"
    "filter is_role_removal (snd (snd (subscription_deleted no_log_env example_sub subscription_store)))
       = [RolesRemove ALLOWED_GUILD_ID ''42'' ''7'']"
    using subscription_deleted_run[OF sel, of no_log_env]
    by (simp_all add: subscription_example_rows subscription_example_channel subscription_example_reach
        or_null_def truthy_def)
  have p1: "purchasesCol (deliver departed_env ''{}'' (Some ''t=1,v1=ok'') subscription_store)
              = [ended_row 5000 subscribed_purchase, refunded_purchase, unrelated_purchase]"
    using subscription_deleted_purchases[of departed_env example_sub subscription_store]
    by (simp add: deliver_def run r1 subscription_example_rows subscription_example_reach)
  have p2: "purchasesCol (deliver no_log_env ''{}'' (Some ''t=1,v1=ok'') subscription_store)
              = [subscribed_purchase, refunded_purchase, unrelated_purchase]"
    using subscription_deleted_purchases[of no_log_env example_sub subscription_store]
    by (simp add: deliver_def run r2 subscription_example_rows)
  show ?thesis
    by (simp add: run r1 r2 p1 p2 subscription_example_event subscription_example_rows)
qed

subsection \<open>Rounding to binary64\<close>

lemma quotient_of_pos:
  assumes "0 < r" and "quotient_of r = (n, d)"
  shows "0 < n" and "0 < d" and "r = of_int n / of_int d"
proof -
  show d: "0 < d" using assms(2) by (rule quotient_of_denom_pos)
  show r: "r = of_int n / of_int d" using assms(2) by (rule quotient_of_div)
  show "0 < n" using assms(1) d unfolding r by (simp add: zero_less_divide_iff)
qed

lemma bitlen_powi_bounds:
  assumes "0 < (n::int)"
  shows "(2::rat) powi (bitlen n - 1) \<le> of_int n" and "of_int n < (2::rat) powi bitlen n"
proof -
  have b: "1 \<le> bitlen n" using assms bitlen_eq_zero_iff[of n] bitlen_nonneg[of n] by linarith
  have "(2::int) ^ nat (bitlen n - 1) \<le> n" and "n < 2 ^ nat (bitlen n)"
    using bitlen_bounds[OF assms] by simp_all
  then have "(of_int (2 ^ nat (bitlen n - 1)) :: rat) \<le> of_int n"
    and "(of_int n :: rat) < of_int (2 ^ nat (bitlen n))"
    by (simp_all only: of_int_le_iff of_int_less_iff)
  then show "(2::rat) powi (bitlen n - 1) \<le> of_int n" and "of_int n < (2::rat) powi bitlen n"
    using b by (simp_all add: power_int_def)
qed

lemma ilog2_bounds:
  assumes "0 < r"
  shows "2 powi ilog2 r \<le> r" and "r < 2 powi (ilog2 r + 1)"
proof -
  obtain n d where q: "quotient_of r = (n, d)" by (cases "quotient_of r") auto
  note nd = quotient_of_pos[OF assms q]
  let ?k = "bitlen n - bitlen d"
  have n1: "(2::rat) powi (bitlen n - 1) \<le> of_int n" and n2: "of_int n < (2::rat) powi bitlen n"
    using bitlen_powi_bounds[OF nd(1)] by simp_all
  have d1: "(2::rat) powi (bitlen d - 1) \<le> of_int d" and d2: "of_int d < (2::rat) powi bitlen d"
    using bitlen_powi_bounds[OF nd(2)] by simp_all
  have dpos: "(0::rat) < of_int d" using nd(2) by simp
  have up: "r < 2 powi (?k + 1)"
  proof -
    have "of_int n < (2::rat) powi bitlen n" by (rule n2)
    also have "\<dots> = 2 powi (?k + 1) * 2 powi (bitlen d - 1)"
      by (simp add: power_int_add[symmetric])
    also have "\<dots> \<le> 2 powi (?k + 1) * of_int d"
      using d1 by (simp add: mult_left_mono)
    finally show ?thesis unfolding nd(3) using dpos by (simp add: pos_divide_less_eq)
  qed
  have lo: "2 powi (?k - 1) < r"
  proof -
    have "(2::rat) powi (?k - 1) * of_int d < 2 powi (?k - 1) * 2 powi bitlen d"
      using d2 by (simp add: mult_strict_left_mono)
    also have "\<dots> = 2 powi (bitlen n - 1)"
      by (simp add: power_int_add[symmetric])
    also have "\<dots> \<le> of_int n" by (rule n1)
    finally show ?thesis unfolding nd(3) using dpos by (simp add: pos_less_divide_eq)
  qed
  show "2 powi ilog2 r \<le> r"
    using lo by (simp add: ilog2_def q Let_def)
  show "r < 2 powi (ilog2 r + 1)"
    using up by (auto simp: ilog2_def q Let_def not_le)
qed

lemma ilog2_eqI:
  assumes "0 < r" and "2 powi k \<le> r" and "r < 2 powi (k + 1)"
  shows "ilog2 r = k"
proof (rule antisym)
  show "ilog2 r \<le> k"
  proof (rule ccontr)
    assume "\<not> ilog2 r \<le> k"
    then have "k + 1 \<le> ilog2 r" by simp
    then have "(2::rat) powi (k + 1) \<le> 2 powi ilog2 r"
      by (intro power_int_increasing) simp_all
    then show False using ilog2_bounds(1)[OF assms(1)] assms(3) by linarith
  qed
  show "k \<le> ilog2 r"
  proof (rule ccontr)
    assume "\<not> k \<le> ilog2 r"
    then have "ilog2 r + 1 \<le> k" by simp
    then have "(2::rat) powi (ilog2 r + 1) \<le> 2 powi k"
      by (intro power_int_increasing) simp_all
    then show False using ilog2_bounds(2)[OF assms(1)] assms(2) by linarith
  qed
qed

lemma ilog2_less:
  assumes "0 < r" and "r < 2 powi k"
  shows "ilog2 r < k"
proof (rule ccontr)
  assume "\<not> ilog2 r < k"
  then have "(2::rat) powi k \<le> 2 powi ilog2 r"
    by (intro power_int_increasing) simp_all
  then show False using ilog2_bounds(1)[OF assms(1)] assms(2) by linarith
qed

lemma ilog2_ge:
  assumes "0 < r" and "2 powi k \<le> r"
  shows "k \<le> ilog2 r"
proof (rule ccontr)
  assume "\<not> k \<le> ilog2 r"
  then have "ilog2 r + 1 \<le> k" by simp
  then have "(2::rat) powi (ilog2 r + 1) \<le> 2 powi k"
    by (intro power_int_increasing) simp_all
  then show False using ilog2_bounds(2)[OF assms(1)] assms(2) by linarith
qed

lemma round_half_even_error: "\<bar>of_int (round_half_even y) - y\<bar> \<le> 1 / 2"
proof -
  have "of_int \<lfloor>y\<rfloor> \<le> y" and "y < of_int \<lfloor>y\<rfloor> + 1" by linarith+
  then show ?thesis
    by (auto simp: round_half_even_def Let_def abs_le_iff)
qed

lemma round_half_even_of_int [simp]: "round_half_even (of_int n) = n"
  by (simp add: round_half_even_def)


lemma round_double_exact:
  assumes "n < 2 ^ 53"
  shows "round_double (of_nat n) = Some (of_nat n)"
proof (cases "n = 0")
  case True
  then show ?thesis by (simp add: round_double_def)
next
  case False
  let ?r = "of_nat n :: rat"
  have pos: "0 < ?r" using False by simp
  have "?r < 2 powi 53" using assms
    by (metis of_nat_less_iff of_nat_numeral of_nat_power power_int_numeral)
  then have hi: "ilog2 ?r < 53" by (rule ilog2_less[OF pos])
  have "(2::rat) powi 0 \<le> ?r" using False by simp
  then have lo: "0 \<le> ilog2 ?r" by (rule ilog2_ge[OF pos])
  define e where "e = max (ilog2 ?r - 52) (- 1074)"
  have e: "e = ilog2 ?r - 52" and e0: "e \<le> 0" using hi lo by (simp_all add: e_def)
  have pe: "(2::rat) powi e = inverse (2 ^ nat (- e))"
    using e0 by (cases "e = 0") (simp_all add: power_int_def power_one_over inverse_eq_divide)
  have inv: "?r / 2 powi e = of_int (int n * 2 ^ nat (- e))"
    by (simp add: pe divide_inverse)
  have unscale: "of_int (int n * 2 ^ nat (- e)) * (2::rat) powi e = ?r"
    by (simp add: pe divide_inverse)
  have small: "?r < 2 ^ 1024"
  proof -
    have "?r < 2 ^ 53" using assms by (metis of_nat_less_iff of_nat_numeral of_nat_power)
    also have "\<dots> \<le> (2::rat) ^ 1024" by (rule power_increasing) simp_all
    finally show ?thesis .
  qed
  show ?thesis
    unfolding round_double_def Let_def e_def[symmetric] inv round_half_even_of_int unscale
    using False small by simp
qed

lemma round_double_near:
  assumes "0 < r" and "r < 2 ^ 46"
  shows "\<exists>x. round_double r = Some x \<and> \<bar>x - r\<bar> \<le> 1 / 256"
proof -
  have "r < 2 powi 46" using assms(2) by simp
  then have hi: "ilog2 r < 46" by (rule ilog2_less[OF assms(1)])
  define e where "e = max (ilog2 r - 52) (- 1074)"
  have e7: "e \<le> - 7" using hi by (simp add: e_def)
  define x where "x = of_int (round_half_even (r / 2 powi e)) * (2::rat) powi e"
  have p: "(0::rat) < 2 powi e" by simp
  have "x - r = (of_int (round_half_even (r / 2 powi e)) - r / 2 powi e) * 2 powi e"
    using p by (simp add: x_def algebra_simps)
  then have "\<bar>x - r\<bar> = \<bar>of_int (round_half_even (r / 2 powi e)) - r / 2 powi e\<bar> * 2 powi e"
    using p by (simp add: abs_mult)
  also have "\<dots> \<le> (1 / 2) * 2 powi e"
    using round_half_even_error[of "r / 2 powi e"] p by (simp add: mult_right_mono)
  also have "\<dots> \<le> (1 / 2) * 2 powi (- 7)"
  proof -
    have "(2::rat) powi e \<le> 2 powi (- 7)" using e7 by (intro power_int_increasing) simp_all
    then show ?thesis by simp
  qed
  also have "\<dots> = 1 / 256" by (simp add: power_int_minus)
  finally have near: "\<bar>x - r\<bar> \<le> 1 / 256" .
  have "x < 2 ^ 46 + 1" using near assms(2) by linarith
  also have "\<dots> \<le> (2::rat) ^ 1024"
  proof -
    have "(2::rat) ^ 46 + 1 \<le> 2 ^ 47" by simp
    also have "\<dots> \<le> (2::rat) ^ 1024" by (rule power_increasing) simp_all
    finally show ?thesis .
  qed
  finally have "x < 2 ^ 1024" .
  then have "round_double r = Some x"
    using assms(1) by (simp add: round_double_def Let_def e_def[symmetric] x_def[symmetric])
  then show ?thesis using near by blast
qed


subsection \<open>Amounts\<close>

declare dec_string.simps [simp del]

lemma dec_string_small: "n < 10 \<Longrightarrow> dec_string n = [digit_char n]"
  by (subst dec_string.simps) simp

lemma dec_string_large: "10 \<le> n \<Longrightarrow> dec_string n = dec_string (n div 10) @ [digit_char (n mod 10)]"
  by (subst dec_string.simps) simp

lemma dec_string_nonempty: "dec_string n \<noteq> []"
  by (subst dec_string.simps) simp

lemma two_decimals_digits:
  "two_decimals n = dec_string (n div 100) @ ''.'' @ [digit_char (n div 10 mod 10), digit_char (n mod 10)]"
proof -
  consider "n < 10" | "10 \<le> n" "n < 100" | "100 \<le> n" by linarith
  then show ?thesis
  proof cases
    case 1
    then show ?thesis
      by (simp add: two_decimals_def dec_string_small Let_def digit_char_def numeral_3_eq_3)
  next
    case 2
    then have "n div 10 < 10" by simp
    then show ?thesis
      using 2 by (simp add: two_decimals_def dec_string_small dec_string_large Let_def digit_char_def)
  next
    case 3
    then have a: "10 \<le> n" and b: "10 \<le> n div 10" by simp_all
    have c: "n div 10 div 10 = n div 100" by (simp add: div_mult2_eq[symmetric])
    have len: "length (dec_string n) = length (dec_string (n div 100)) + 2"
      by (simp add: dec_string_large[OF a] dec_string_large[OF b] c)
    have l: "3 - length (dec_string n) = 0"
      using dec_string_nonempty[of "n div 100"]
      by (cases "dec_string (n div 100)") (simp_all add: len)
    have m: "dec_string n = dec_string (n div 100) @ [digit_char (n div 10 mod 10), digit_char (n mod 10)]"
      by (simp add: dec_string_large[OF a] dec_string_large[OF b] c)
    have t: "take (length (dec_string n) - 2) (dec_string n) = dec_string (n div 100)"
      and d: "drop (length (dec_string n) - 2) (dec_string n) = [digit_char (n div 10 mod 10), digit_char (n mod 10)]"
      unfolding m by simp_all
    show ?thesis
      unfolding two_decimals_def Let_def l by (simp add: t d)
  qed
qed

lemma toFixed2_near:
  assumes "\<bar>x - of_nat v / 100\<bar> \<le> 1 / 256" and "0 < v" and "v < 2 ^ 53"
  shows "toFixed2 x = Some (two_decimals v)"
proof -
  have v1: "(1::rat) \<le> of_nat v" using assms(2) by simp
  have lo: "of_nat v / 100 - 1 / 256 \<le> x" and hi: "x \<le> of_nat v / 100 + 1 / 256"
    using assms(1) by linarith+
  have x0: "0 \<le> x" using lo v1 by linarith
  have "(of_nat v :: rat) < 2 ^ 53" using assms(3)
    by (metis of_nat_less_iff of_nat_numeral of_nat_power)
  then have xs: "x < 10 ^ 21" using hi by simp
  have "\<lfloor>x * 100 + 1 / 2\<rfloor> = int v"
  proof (rule floor_unique)
    show "of_int (int v) \<le> x * 100 + 1 / 2" using lo by simp
    show "x * 100 + 1 / 2 < of_int (int v) + 1" using hi by simp
  qed
  then show ?thesis
    using x0 xs by (simp add: toFixed2_def two_decimals_def Let_def)
qed

lemma is_digit_cases:
  "is_digit c \<Longrightarrow> digit_value c < 10 \<and> digit_char (digit_value c) = c"
  by (auto simp: is_digit_def digit_value_def digit_char_def)


lemma dot_not_digit: "is_digit c \<Longrightarrow> c \<noteq> CHR ''.''"
  by (auto simp: is_digit_def)

lemma amount_pattern_parts:
  assumes "amount_pattern t"
  shows "amount_whole t = takeWhile is_digit t"
    and "length (amount_frac t) = 2"
    and "list_all is_digit (amount_frac t)"
proof -
  let ?w = "takeWhile is_digit t" and ?rest = "dropWhile is_digit t"
  have t: "t = ?w @ ?rest" by simp
  have w: "\<forall>c\<in>set ?w. c \<noteq> CHR ''.''"
    using dot_not_digit by (auto dest: set_takeWhileD)
  have rest: "?rest = [] \<or> (\<exists>fr. ?rest = CHR ''.'' # fr \<and> (length fr = 1 \<or> length fr = 2) \<and> list_all is_digit fr)"
    using assms by (auto simp: amount_pattern_def split: list.splits)
  have fr_nodot: "takeWhile (\<lambda>x. x \<noteq> CHR ''.'') fr = fr" if "list_all is_digit fr" for fr
    using that dot_not_digit by (auto simp: takeWhile_eq_all_conv list_all_iff)
  have s0: "segment0 CHR ''.'' t = ?w @ takeWhile (\<lambda>x. x \<noteq> CHR ''.'') ?rest"
    unfolding segment0_def by (subst t) (simp only: takeWhile_append2[OF w[rule_format]])
  have dw: "dropWhile (\<lambda>x. x \<noteq> CHR ''.'') t = dropWhile (\<lambda>x. x \<noteq> CHR ''.'') ?rest"
    by (subst t) (simp only: dropWhile_append2[OF w[rule_format]])
  show "amount_whole t = takeWhile is_digit t"
  proof -
    have "takeWhile (\<lambda>x. x \<noteq> CHR ''.'') ?rest = []"
      using rest by (elim disjE exE) (simp_all del: dropWhile_eq_Nil_conv)
    then show ?thesis by (simp add: amount_whole_def s0)
  qed
  have fracRaw: "(case segment1 CHR ''.'' t of None \<Rightarrow> [] | Some f \<Rightarrow> f) = drop 1 ?rest"
    using rest by (elim disjE exE) (simp_all add: segment1_def dw fr_nodot del: dropWhile_eq_Nil_conv)
  have shape: "drop 1 ?rest = [] \<or> (\<exists>a. drop 1 ?rest = [a] \<and> is_digit a)
                \<or> (\<exists>a b. drop 1 ?rest = [a, b] \<and> is_digit a \<and> is_digit b)"
    using rest by (elim disjE exE conjE) (auto simp: length_Suc_conv numeral_2_eq_2 simp del: dropWhile_eq_Nil_conv)
  have zero: "is_digit CHR ''0''" by (simp add: is_digit_def)
  show "length (amount_frac t) = 2"
    unfolding amount_frac_def Let_def fracRaw
    using shape by (elim disjE exE conjE) (simp_all add: numeral_2_eq_2)
  show "list_all is_digit (amount_frac t)"
    unfolding amount_frac_def Let_def fracRaw
    using shape zero by (elim disjE exE conjE) (simp_all add: numeral_2_eq_2)
qed

lemma two_digits_value:
  assumes "length fr = 2" and "list_all is_digit fr"
  shows "dec_value fr < 100"
    and "fr = [digit_char (dec_value fr div 10 mod 10), digit_char (dec_value fr mod 10)]"
proof -
  obtain a b where fr: "fr = [a, b]"
    using assms(1) by (auto simp: length_Suc_conv numeral_2_eq_2)
  have a: "digit_value a < 10" "digit_char (digit_value a) = a"
    and b: "digit_value b < 10" "digit_char (digit_value b) = b"
    using assms(2) is_digit_cases by (auto simp: fr)
  have v: "dec_value fr = 10 * digit_value a + digit_value b"
    by (simp add: fr dec_value_def)
  show "dec_value fr < 100" using a(1) b(1) by (simp add: v)
  have "dec_value fr div 10 mod 10 = digit_value a" "dec_value fr mod 10 = digit_value b"
    using a(1) b(1) by (simp_all add: v)
  then show "fr = [digit_char (dec_value fr div 10 mod 10), digit_char (dec_value fr mod 10)]"
    using a(2) b(2) by (simp add: fr)
qed

lemma amountToMinorUnits_exact:
  assumes "amount_pattern (trim t)"
    and "0 < amount_value (trim t)" and "amount_value (trim t) < 2 ^ 53"
  shows "amountToMinorUnits t = Some (of_nat (amount_value (trim t)))"
proof -
  let ?W = "dec_value (amount_whole (trim t))" and ?F = "dec_value (amount_frac (trim t))"
  have v: "amount_value (trim t) = 100 * ?W + ?F" by (simp add: amount_value_def)
  have W: "?W < 2 ^ 53" and W100: "?W * 100 < 2 ^ 53" and F: "?F < 2 ^ 53"
    using assms(3) unfolding v by simp_all
  have n1: "Number_digits (amount_whole (trim t)) = Some (of_nat ?W)"
    unfolding Number_digits_def by (rule round_double_exact[OF W])
  have n2: "Number_digits (amount_frac (trim t)) = Some (of_nat ?F)"
    unfolding Number_digits_def by (rule round_double_exact[OF F])
  have c1: "(of_nat ?W :: rat) * 100 = of_nat (?W * 100)" by simp
  have c2: "(of_nat (?W * 100) :: rat) + of_nat ?F = of_nat (amount_value (trim t))"
    by (simp add: v)
  have m1: "js_times (Some (of_nat ?W)) 100 = Some (of_nat (?W * 100))"
    unfolding js_times_def option.case c1 by (rule round_double_exact[OF W100])
  have m2: "js_plus (Some (of_nat (?W * 100))) (Some (of_nat ?F)) = Some (of_nat (amount_value (trim t)))"
    unfolding js_plus_def option.case c2 by (rule round_double_exact[OF assms(3)])
  have pos: "\<not> (of_nat (amount_value (trim t)) :: rat) \<le> 0" using assms(2) by simp
  show ?thesis
    unfolding amountToMinorUnits_def Let_def n1 n2 m1 m2 option.case
    using assms(1) pos by simp
qed

lemma minorToDisplay_exact:
  assumes "0 < v" and "v < 100 * 2 ^ 46"
  shows "minorToDisplay (of_nat v) = Some (CHR 0xAC # CHR 0xA3 # two_decimals v)"
proof -
  let ?r = "of_nat v / 100 :: rat"
  have pos: "0 < ?r" using assms(1) by simp
  have "(of_nat v :: rat) < of_nat (100 * 2 ^ 46)" using assms(2) by (simp only: of_nat_less_iff)
  then have small: "?r < 2 ^ 46" by simp
  obtain x where x: "round_double ?r = Some x" "\<bar>x - ?r\<bar> \<le> 1 / 256"
    using round_double_near[OF pos small] by blast
  have "v < 2 ^ 53" using assms(2) by simp
  then have "toFixed2 x = Some (two_decimals v)"
    using toFixed2_near[OF x(2) assms(1)] by simp
  then show ?thesis by (simp add: minorToDisplay_def x(1))
qed

lemma mod_hundred_parts:
  fixes w f :: nat
  shows "(100 * w + f) mod 10 = f mod 10" and "(100 * w + f) div 10 mod 10 = f div 10 mod 10"
proof -
  have e: "100 * w + f = 10 * (10 * w) + f" by simp
  then show "(100 * w + f) mod 10 = f mod 10" by (simp only: mod_mult_self4)
  from e have "(100 * w + f) div 10 = 10 * w + f div 10" by (simp only: div_mult_self4)
  then show "(100 * w + f) div 10 mod 10 = f div 10 mod 10" by (simp only: mod_mult_self4)
qed

lemma display_parts:
  assumes pat: "amount_pattern t"
  shows "two_decimals (amount_value t) = dec_string (dec_value (amount_whole t)) @ ''.'' @ amount_frac t"
proof -
  let ?W = "dec_value (amount_whole t)" and ?F = "dec_value (amount_frac t)"
  note parts = amount_pattern_parts[OF pat]
  have fr: "?F < 100"
    "amount_frac t = [digit_char (?F div 10 mod 10), digit_char (?F mod 10)]"
    by (rule two_digits_value[OF parts(2,3)])+
  have v: "amount_value t = 100 * ?W + ?F" by (simp add: amount_value_def)
  have d1: "amount_value t div 100 = ?W" using fr(1) unfolding v by simp
  have main: "two_decimals (amount_value t) =
          dec_string ?W @ ''.'' @ [digit_char (?F div 10 mod 10), digit_char (?F mod 10)]"
    unfolding two_decimals_digits d1 unfolding v mod_hundred_parts ..
  show ?thesis by (subst fr(2)) (rule main)
qed

text \<open>
  C7, as amended. For every string whose trimmed form matches an unsigned decimal with at
  most two fractional digits and denotes a positive number of minor units below
  \<open>100 * 2 ^ 46\<close>, \<open>amountToMinorUnits\<close> returns exactly that positive integer, and
  \<open>minorToDisplay\<close> of it is the currency prefix, the whole part of the input in decimal
  and the two fractional digits of the input (padded with zeros): the same two-decimal value.
  For every string whose trimmed form does not match, or denotes zero,
  \<open>amountToMinorUnits\<close> returns \<open>null\<close>.
\<close>

theorem amount_round_trip:
  "(amount_pattern (trim t) \<and> 0 < amount_value (trim t) \<and> amount_value (trim t) < 100 * 2 ^ 46 \<longrightarrow>
      amountToMinorUnits t = Some (of_nat (amount_value (trim t)))
      \<and> minorToDisplay (of_nat (amount_value (trim t)))
          = Some (CHR 0xAC # CHR 0xA3 # dec_string (dec_value (amount_whole (trim t))) @ ''.'' @ amount_frac (trim t)))
   \<and> (\<not> amount_pattern (trim t) \<or> amount_value (trim t) = 0 \<longrightarrow> amountToMinorUnits t = None)"
proof (intro conjI impI)
  assume a: "amount_pattern (trim t) \<and> 0 < amount_value (trim t) \<and> amount_value (trim t) < 100 * 2 ^ 46"
  then have pat: "amount_pattern (trim t)" and pos: "0 < amount_value (trim t)"
    and b46: "amount_value (trim t) < 100 * 2 ^ 46" by simp_all
  from b46 have b53: "amount_value (trim t) < 2 ^ 53" by simp
  show "amountToMinorUnits t = Some (of_nat (amount_value (trim t)))"
    by (rule amountToMinorUnits_exact[OF pat pos b53])
  show "minorToDisplay (of_nat (amount_value (trim t)))
          = Some (CHR 0xAC # CHR 0xA3 # dec_string (dec_value (amount_whole (trim t))) @ ''.'' @ amount_frac (trim t))"
    unfolding minorToDisplay_exact[OF pos b46] display_parts[OF pat] ..
next
  assume a: "\<not> amount_pattern (trim t) \<or> amount_value (trim t) = 0"
  show "amountToMinorUnits t = None"
  proof (cases "amount_pattern (trim t)")
    case False
    then show ?thesis by (simp add: amountToMinorUnits_def)
  next
    case True
    then have z: "amount_value (trim t) = 0" using a by simp
    then have w: "dec_value (amount_whole (trim t)) = 0" and f: "dec_value (amount_frac (trim t)) = 0"
      by (simp_all add: amount_value_def)
    have r0: "round_double 0 = Some 0" by (simp add: round_double_def)
    have "js_plus (js_times (Number_digits (amount_whole (trim t))) 100)
            (Number_digits (amount_frac (trim t))) = Some 0"
      by (simp add: Number_digits_def w f r0 js_times_def js_plus_def)
    then show ?thesis by (simp add: amountToMinorUnits_def True)
  qed
qed


lemma example_amount:
  "trim '' 9.99 '' = ''9.99''" "amount_pattern ''9.99''" "amount_value ''9.99'' = 999"
  "amount_whole ''9.99'' = ''9''" "amount_frac ''9.99'' = ''99''"
  by (simp_all add: trim_def is_space_def amount_pattern_def is_digit_def amount_value_def
      amount_whole_def amount_frac_def segment0_def segment1_def dec_value_def digit_value_def)

theorem amount_round_trip_witness:
  "amount_pattern (trim '' 9.99 '') \<and> 0 < amount_value (trim '' 9.99 '')
   \<and> amount_value (trim '' 9.99 '') < 100 * 2 ^ 46
   \<and> amountToMinorUnits '' 9.99 '' = Some 999
   \<and> minorToDisplay 999 = Some (CHR 0xAC # CHR 0xA3 # ''9.99'')
   \<and> \<not> amount_pattern (trim ''1.234'')
   \<and> amountToMinorUnits ''1.234'' = None"
proof -
  have d: "dec_string (dec_value ''9'') = ''9''"
    by (simp add: dec_value_def digit_value_def dec_string_small digit_char_def)
  have n: "\<not> amount_pattern (trim ''1.234'')"
    by (simp add: trim_def is_space_def amount_pattern_def is_digit_def)
  show ?thesis
    using amount_round_trip[of "'' 9.99 ''"] amount_round_trip[of "''1.234''"] n
    by (simp add: example_amount d)
qed

text \<open>
  The claim as first stated fails for large amounts, where binary64 cannot hold the
  hundredths: \<open>70368744177664.01\<close> is a valid positive amount and parses to
  \<open>7036874417766401\<close> minor units, but \<open>7036874417766401 / 100\<close> rounds to
  \<open>4503599627370497 / 64\<close>, which \<open>toFixed(2)\<close> prints as \<open>70368744177664.02\<close>.
\<close>

lemma large_amount:
  "trim ''70368744177664.01'' = ''70368744177664.01''" "amount_pattern ''70368744177664.01''"
  "amount_value ''70368744177664.01'' = 7036874417766401"
  by (simp_all add: trim_def is_space_def amount_pattern_def is_digit_def amount_value_def
      amount_whole_def amount_frac_def segment0_def segment1_def dec_value_def digit_value_def)

lemma large_amount_rounded: "round_double (7036874417766401 / 100) = Some (4503599627370497 / 64)"
proof -
  have l: "ilog2 (7036874417766401 / 100) = 46"
    by (rule ilog2_eqI) simp_all
  have f: "\<lfloor>112589990684262416 / 25 :: rat\<rfloor> = 4503599627370496"
    by (rule floor_unique) simp_all
  show ?thesis
    by (simp add: round_double_def l round_half_even_def Let_def power_int_minus f)
qed

lemma large_amount_fixed: "toFixed2 (4503599627370497 / 64) = Some ''70368744177664.02''"
proof -
  have f: "\<lfloor>4503599627370497 * 100 / 64 + 1 / 2 :: rat\<rfloor> = 7036874417766402"
    by (rule floor_unique) simp_all
  show ?thesis
    using f by (simp add: toFixed2_def Let_def dec_string_small dec_string_large digit_char_def)
qed

theorem amount_round_trip_counterexample:
  "amount_pattern (trim ''70368744177664.01'')
   \<and> 0 < amount_value (trim ''70368744177664.01'')
   \<and> amountToMinorUnits ''70368744177664.01'' = Some 7036874417766401
   \<and> minorToDisplay 7036874417766401 = Some (CHR 0xAC # CHR 0xA3 # ''70368744177664.02'')
   \<and> minorToDisplay 7036874417766401 \<noteq> Some (CHR 0xAC # CHR 0xA3 # ''70368744177664.01'')"
proof -
  have "amountToMinorUnits ''70368744177664.01'' = Some 7036874417766401"
    using amountToMinorUnits_exact[of "''70368744177664.01''"] by (simp add: large_amount)
  moreover have "minorToDisplay 7036874417766401 = Some (CHR 0xAC # CHR 0xA3 # ''70368744177664.02'')"
    by (simp add: minorToDisplay_def large_amount_rounded large_amount_fixed)
  ultimately show ?thesis by (simp add: large_amount)
qed

end
